theory Spec2Isabelle
  imports Main
begin

text \<open>
  The request handling of the gateway (server.js): the middleware stack
  \<open>authenticateApiKey\<close>, \<open>rateLimiter\<close>, \<open>cacheMiddleware\<close>, the handlers of \<open>/health\<close> and
  \<open>/gateway/stats\<close>, the proxy with its hooks, and the 404 handler, over the two stores
  \<open>rateLimitStore\<close> and \<open>cacheStore\<close>. Node handles one middleware call at a time, so a
  request is a function from the state of the stores to the new state and the response.
  The clock, the environment and the upstream service are inputs, and so is what
  \<open>express.json()\<close>, mounted before the stack, makes of the request body. Logging (morgan),
  the loading of config.json, start-up and shutdown are not modelled; none of them reads or
  writes the two stores or answers a request.
\<close>

section \<open>JavaScript values used by server.js\<close>

text \<open>
  A JavaScript \<open>Map\<close> keeps its keys distinct and in insertion order: \<open>set\<close> on a key that
  is present replaces the value where the key stands, \<open>set\<close> on a new key appends it,
  \<open>delete\<close> removes the key, \<open>size\<close> is the number of keys. Both stores of server.js
  (\<open>rateLimitStore\<close>, \<open>cacheStore\<close>) are such maps; they are modelled as association lists
  in insertion order.
\<close>

type_synonym 'v js_map = "(string \<times> 'v) list"

definition Map_get :: "'v js_map \<Rightarrow> string \<Rightarrow> 'v option" where
  "Map_get m k = map_of m k"

fun Map_set :: "string \<Rightarrow> 'v \<Rightarrow> 'v js_map \<Rightarrow> 'v js_map" where
  "Map_set k v [] = [(k, v)]"
| "Map_set k v ((k', v') # m) = (if k' = k then (k, v) # m else (k', v') # Map_set k v m)"

definition Map_delete :: "string \<Rightarrow> 'v js_map \<Rightarrow> 'v js_map" where
  "Map_delete k m = filter (\<lambda>(k', v). k' \<noteq> k) m"

definition Map_keys :: "'v js_map \<Rightarrow> string list" where
  "Map_keys m = map fst m"

definition Map_size :: "'v js_map \<Rightarrow> int" where
  "Map_size m = int (length m)"

text \<open>
  JSON values as the handlers build them. \<open>JIso t\<close> stands for the string
  \<open>new Date(t).toISOString()\<close> of the millisecond timestamp \<open>t\<close>. An object literal is a
  list of its properties; every \<open>res.json\<close> call of server.js is given an object literal.
\<close>

datatype json =
    JNull
  | JBool bool
  | JNum int
  | JStr string
  | JIso int
  | JArr "json list"
  | JObj "(string \<times> json) list"

type_synonym jobject = "(string \<times> json) list"

text \<open>\<open>Math.ceil(a / d)\<close> for integers \<open>a\<close> and a positive integer \<open>d\<close>.\<close>

definition Math_ceil_div :: "int \<Rightarrow> int \<Rightarrow> int" where
  "Math_ceil_div a d = - ((- a) div d)"

text \<open>\<open>s.startsWith(p)\<close>.\<close>

fun startsWith :: "string \<Rightarrow> string \<Rightarrow> bool" where
  "startsWith s [] = True"
| "startsWith [] (c # p) = False"
| "startsWith (x # s) (c # p) = (x = c \<and> startsWith s p)"

text \<open>
  \<open>s.replace(pat, rep)\<close> with a string pattern: the first occurrence of \<open>pat\<close> is replaced.
  (server.js only calls it with the replacement \<open>''\<close>, which holds no \<open>$\<close> pattern.)
\<close>

fun String_replace :: "string \<Rightarrow> string \<Rightarrow> string \<Rightarrow> string" where
  "String_replace [] pat rep = (if pat = [] then rep else [])"
| "String_replace (x # s) pat rep =
     (if startsWith (x # s) pat then rep @ drop (length pat) (x # s)
      else x # String_replace s pat rep)"

text \<open>\<open>s.split(c)\<close> for a one-character separator.\<close>

fun String_split :: "char \<Rightarrow> string \<Rightarrow> string list" where
  "String_split c [] = [[]]"
| "String_split c (x # s) =
     (if x = c then [] # String_split c s
      else (case String_split c s of
              [] \<Rightarrow> [[x]]
            | seg # segs \<Rightarrow> (x # seg) # segs))"

section \<open>Requests, responses and the gateway state\<close>

text \<open>
  An error handed to \<open>next(err)\<close>, as the error handler reads it: \<open>err_status\<close> is
  \<open>error.statusCode || error.status\<close> (absent when neither is set), \<open>err_message\<close> is
  \<open>error.message\<close>.
\<close>

record js_error =
  err_status :: "nat option"
  err_message :: string

text \<open>
  What server.js and Express read from a request: \<open>req.method\<close>, \<open>req.originalUrl\<close> (path
  and query string), the header \<open>x-api-key\<close> (absent, or its value) and \<open>req.ip\<close>; further
  \<open>json_error\<close>, the error that \<open>express.json()\<close> raises on the body (malformed JSON gives
  status 400, an oversized body 413; \<open>None\<close> when the body is accepted or there is none), and
  \<open>conditional\<close>, the outcome of Express's freshness test of the request's \<open>If-None-Match\<close>,
  \<open>If-Modified-Since\<close> and \<open>Cache-Control\<close> headers against the entity tag of a JSON body (for
  a request without these headers it is false for every body). \<open>req.path\<close> is the part of
  the URL before the first \<open>?\<close> or \<open>#\<close>.
\<close>

record request =
  req_method :: string
  originalUrl :: string
  x_api_key :: "string option"
  ip :: string
  json_error :: "js_error option"
  conditional :: "jobject \<Rightarrow> bool"

definition req_path :: "request \<Rightarrow> string" where
  "req_path req = takeWhile (\<lambda>c. c \<noteq> CHR ''?'' \<and> c \<noteq> CHR ''#'') (originalUrl req)"

text \<open>
  A response: the status code, the headers that server.js sets on \<open>res\<close>, and the payload,
  which is a JSON object sent with \<open>res.json\<close>, the upstream's body relayed by the proxy,
  or nothing (the 304 answer). For a HEAD request Node writes the status and the headers
  only; the payload is then what \<open>res.json\<close> was given.
\<close>

datatype payload = Json jobject | Relayed string | NoBody

record response =
  status :: nat
  headers :: "(string \<times> json) list"
  body :: payload

text \<open>
  Express's own \<open>res.json\<close> (\<open>originalJson\<close> in \<open>cacheMiddleware\<close>), which every answer
  built with \<open>res.json\<close> ends in: it sends the object with the status set on \<open>res\<close>, unless
  the request is fresh (\<open>req.fresh\<close>: a GET or HEAD, a status 2xx or 304, and a conditional
  header that matches the body), in which case it sends 304 and no body.
\<close>

definition req_fresh :: "request \<Rightarrow> response \<Rightarrow> bool" where
  "req_fresh req r \<longleftrightarrow>
     (req_method req = ''GET'' \<or> req_method req = ''HEAD'') \<and>
     ((200 \<le> status r \<and> status r < 300) \<or> status r = 304) \<and>
     (case body r of Json b \<Rightarrow> conditional req b | Relayed b \<Rightarrow> False | NoBody \<Rightarrow> False)"

definition originalJson :: "request \<Rightarrow> response \<Rightarrow> response" where
  "originalJson req r = (if req_fresh req r then r\<lparr>status := 304, body := NoBody\<rparr> else r)"

record window =
  count :: int
  windowStart :: int

record cache_entry =
  data :: jobject
  timestamp :: int

record gateway =
  rateLimitStore :: "window js_map"
  cacheStore :: "cache_entry js_map"

section \<open>authenticateApiKey\<close>

text \<open>\<open>process.env.API_KEY || 'gateway-secret-key'\<close>: an unset or empty variable gives the default.\<close>

definition validApiKey :: "string option \<Rightarrow> string" where
  "validApiKey API_KEY =
     (case API_KEY of
        None \<Rightarrow> ''gateway-secret-key''
      | Some k \<Rightarrow> if k = [] then ''gateway-secret-key'' else k)"

definition res_401_missing :: response where
  "res_401_missing =
     \<lparr>status = 401, headers = [],
      body = Json [(''error'', JStr ''Missing API key. Please provide x-api-key header.'')]\<rparr>"

definition res_401_invalid :: response where
  "res_401_invalid =
     \<lparr>status = 401, headers = [], body = Json [(''error'', JStr ''Invalid API key.'')]\<rparr>"

text \<open>\<open>None\<close> is \<open>next()\<close>; \<open>Some r\<close> is the response that ends the request.\<close>

definition authenticateApiKey :: "string option \<Rightarrow> request \<Rightarrow> response option" where
  "authenticateApiKey API_KEY req =
     (case x_api_key req of
        None \<Rightarrow> Some res_401_missing
      | Some apiKey \<Rightarrow>
          if apiKey = [] then Some res_401_missing
          else if apiKey \<noteq> validApiKey API_KEY then Some res_401_invalid
          else None)"

section \<open>rateLimiter\<close>

definition windowMs :: int where
  "windowMs = 60 * 1000"

definition maxRequests :: int where
  "maxRequests = 10"

text \<open>
  The sweep at the head of \<open>rateLimiter\<close>: the loop walks the entries of the map and deletes
  the key of every entry whose window is over.
\<close>

definition clean_expired :: "int \<Rightarrow> window js_map \<Rightarrow> window js_map" where
  "clean_expired now store =
     foldl (\<lambda>m (ip, d). if now - windowStart d > windowMs then Map_delete ip m else m)
       store store"

definition res_429 :: "int \<Rightarrow> window \<Rightarrow> response" where
  "res_429 now ipData =
     \<lparr>status = 429, headers = [],
      body = Json [(''error'', JStr ''Rate limit exceeded. Maximum 10 requests per minute.''),
                   (''retryAfter'',
                    JNum (Math_ceil_div (windowMs - (now - windowStart ipData)) 1000))]\<rparr>"

definition rate_limit_headers :: "window \<Rightarrow> (string \<times> json) list" where
  "rate_limit_headers ipData =
     [(''X-RateLimit-Limit'', JNum maxRequests),
      (''X-RateLimit-Remaining'', JNum (max 0 (maxRequests - count ipData))),
      (''X-RateLimit-Reset'', JIso (windowStart ipData + windowMs))]"

text \<open>
  \<open>rateLimiter now clientIp store\<close> returns the store as the middleware leaves it, and either
  the 429 response (\<open>Inl\<close>) or the headers set on \<open>res\<close> before \<open>next()\<close> (\<open>Inr\<close>).
\<close>

definition rateLimiter ::
  "int \<Rightarrow> string \<Rightarrow> window js_map \<Rightarrow> window js_map \<times> (response + (string \<times> json) list)" where
  "rateLimiter now clientIp store =
     (let swept = clean_expired now store;
          ipData0 = (case Map_get swept clientIp of
                       None \<Rightarrow> \<lparr>count = 0, windowStart = now\<rparr>
                     | Some d \<Rightarrow> if now - windowStart d > windowMs
                                then \<lparr>count = 0, windowStart = now\<rparr> else d);
          ipData = ipData0\<lparr>count := count ipData0 + 1\<rparr>;
          store' = Map_set clientIp ipData swept
      in if count ipData > maxRequests then (store', Inl (res_429 now ipData))
         else (store', Inr (rate_limit_headers ipData)))"

text \<open>
  The requests of a run as the rate limiter sees them, one \<open>(req.ip, Date.now())\<close> pair per
  request, handled one after the other (Node runs each middleware call to its end before the
  next request is looked at). \<open>rateLimiter_run\<close> lists the client of each request with the
  outcome of its check.
\<close>

fun rateLimiter_run ::
  "window js_map \<Rightarrow> (string \<times> int) list \<Rightarrow> (string \<times> (response + (string \<times> json) list)) list" where
  "rateLimiter_run store [] = []"
| "rateLimiter_run store ((clientIp, now) # evs) =
     (clientIp, snd (rateLimiter now clientIp store))
       # rateLimiter_run (fst (rateLimiter now clientIp store)) evs"

definition outcomes_of :: "string \<Rightarrow> (string \<times> 'a) list \<Rightarrow> 'a list" where
  "outcomes_of c outs = map snd (filter (\<lambda>(clientIp, out). clientIp = c) outs)"

definition requests_of :: "string \<Rightarrow> (string \<times> int) list \<Rightarrow> nat" where
  "requests_of c evs = length (filter (\<lambda>(clientIp, now). clientIp = c) evs)"

section \<open>cacheMiddleware\<close>

definition cacheKey :: "request \<Rightarrow> string" where
  "cacheKey req =
     req_method req @ '':'' @ originalUrl req @ '':'' @
       (case x_api_key req of None \<Rightarrow> ''undefined'' | Some k \<Rightarrow> k)"

text \<open>
  The body of a hit, \<open>{...cached.data, _cached: true, _cachedAt: ...}\<close>: the properties of the
  stored object, then the two annotations (written over properties of the same name).
\<close>

definition cached_body :: "cache_entry \<Rightarrow> jobject" where
  "cached_body cached =
     Map_set ''_cachedAt'' (JIso (timestamp cached))
       (Map_set ''_cached'' (JBool True) (data cached))"

text \<open>
  The three ways out of \<open>cacheMiddleware\<close>: \<open>next()\<close> at once for a method other than GET,
  the cached answer, or \<open>next()\<close> after \<open>res.json\<close> has been replaced by the storing
  wrapper for the request's key.
\<close>

datatype cache_outcome = Bypass | Hit jobject | Miss string

definition cacheMiddleware :: "int \<Rightarrow> request \<Rightarrow> cache_entry js_map \<Rightarrow> cache_outcome" where
  "cacheMiddleware now req cache =
     (if req_method req \<noteq> ''GET'' then Bypass
      else (case Map_get cache (cacheKey req) of
              None \<Rightarrow> Miss (cacheKey req)
            | Some cached \<Rightarrow>
                if now - timestamp cached < 30000 then Hit (cached_body cached)
                else Miss (cacheKey req)))"

text \<open>
  What the replaced \<open>res.json\<close> does to \<open>cacheStore\<close> before it hands the object to the
  original \<open>res.json\<close>: \<open>key\<close> is the request's cache key, \<open>now\<close> the \<open>Date.now()\<close> of the
  store, \<open>statusCode\<close> is \<open>res.statusCode\<close>.
\<close>

definition res_json :: "string \<Rightarrow> int \<Rightarrow> nat \<Rightarrow> jobject \<Rightarrow> cache_entry js_map \<Rightarrow> cache_entry js_map" where
  "res_json key now statusCode d cache =
     (if statusCode = 200 then
        (let cache' = Map_set key \<lparr>data = d, timestamp = now\<rparr> cache
         in if Map_size cache' > 100 then
              (let oldestKeys = take 10 (Map_keys cache')
               in foldl (\<lambda>m k. Map_delete k m) cache' oldestKeys)
            else cache')
      else cache)"

text \<open>
  A run of stores: each event is one call of the replaced \<open>res.json\<close>, given as
  \<open>(key, now, statusCode, data)\<close>, starting from a cache.
\<close>

fun res_json_run :: "cache_entry js_map \<Rightarrow> (string \<times> int \<times> nat \<times> jobject) list \<Rightarrow> cache_entry js_map" where
  "res_json_run cache [] = cache"
| "res_json_run cache ((key, now, statusCode, d) # evs) =
     res_json_run (res_json key now statusCode d cache) evs"

section \<open>Route handlers and the proxy\<close>

text \<open>
  The configuration is the list \<open>Object.entries(config)\<close>: route prefix and target, in the
  order of the object's keys.
\<close>

type_synonym config = "(string \<times> string) list"

text \<open>
  What a request finds outside the gateway's two stores: the environment variable
  \<open>API_KEY\<close>, the clock at each place where server.js reads it (\<open>req.startTime\<close>, the
  \<open>Date.now()\<close> of \<open>rateLimiter\<close>, of the cache lookup, of the handler that answers, and of
  the store in the replaced \<open>res.json\<close>), \<open>process.uptime()\<close>, \<open>process.memoryUsage()\<close>,
  and what the upstream service does if the request is forwarded.
\<close>

datatype upstream_result = Unavailable | Responded nat string

record environment =
  API_KEY :: "string option"
  startTime :: int
  now_rateLimiter :: int
  now_cache :: int
  now_handler :: int
  now_store :: int
  uptime :: json
  memoryUsage :: json
  upstream :: upstream_result

definition health_body :: "config \<Rightarrow> environment \<Rightarrow> jobject" where
  "health_body cfg env =
     [(''status'', JStr ''healthy''),
      (''timestamp'', JIso (now_handler env)),
      (''uptime'', uptime env),
      (''routes'', JArr (map (\<lambda>(route, target). JStr route) cfg))]"

definition stats_body :: "config \<Rightarrow> environment \<Rightarrow> gateway \<Rightarrow> jobject" where
  "stats_body cfg env s =
     [(''activeConnections'', JNum (Map_size (rateLimitStore s))),
      (''cacheSize'', JNum (Map_size (cacheStore s))),
      (''configuration'', JObj (map (\<lambda>(route, target). (route, JStr target)) cfg)),
      (''memory'', memoryUsage env)]"

definition not_found_body :: "config \<Rightarrow> environment \<Rightarrow> request \<Rightarrow> jobject" where
  "not_found_body cfg env req =
     [(''error'', JStr ''Route not found''),
      (''message'', JStr (''No proxy configuration found for '' @ originalUrl req)),
      (''availableRoutes'', JArr (map (\<lambda>(route, target). JStr route) cfg)),
      (''timestamp'', JIso (now_handler env))]"

text \<open>
  The error-handling middleware: \<open>statusCode = error.statusCode || error.status || 500\<close>,
  \<open>message = error.message || 'Internal Server Error'\<close>.
\<close>

definition error_handler :: "js_error \<Rightarrow> environment \<Rightarrow> request \<Rightarrow> response" where
  "error_handler error env req =
     \<lparr>status = (case err_status error of
                   None \<Rightarrow> 500
                 | Some statusCode \<Rightarrow> if statusCode = 0 then 500 else statusCode),
      headers = [],
      body = Json [(''error'', JStr (if err_message error = [] then ''Internal Server Error''
                                     else err_message error)),
                   (''timestamp'', JIso (now_handler env)),
                   (''path'', JStr (originalUrl req)),
                   (''method'', JStr (req_method req))]\<rparr>"

text \<open>\<open>proxyOptions.router\<close>: the target of the first route that starts the path.\<close>

fun router :: "config \<Rightarrow> string \<Rightarrow> string option" where
  "router [] p = None"
| "router ((route, target) # cfg) p = (if startsWith p route then Some target else router cfg p)"

text \<open>
  The loop of \<open>onProxyReq\<close>: \<open>newPath\<close> starts as the path; at the first route that starts
  the path it becomes \<open>req.path.replace(route, '') || '/'\<close>.
\<close>

fun newPath :: "config \<Rightarrow> string \<Rightarrow> string" where
  "newPath [] p = p"
| "newPath ((route, target) # cfg) p =
     (if startsWith p route
      then (let stripped = String_replace p route [] in if stripped = [] then ''/'' else stripped)
      else newPath cfg p)"

text \<open>
  \<open>proxyReq.path\<close> as \<open>onProxyReq\<close> sets it, from \<open>req.path\<close> and \<open>req.url\<close>:
  \<open>newPath + (req.url.includes('?') ? '?' + req.url.split('?')[1] : '')\<close>.
\<close>

definition proxyReq_path :: "config \<Rightarrow> string \<Rightarrow> string \<Rightarrow> string" where
  "proxyReq_path cfg p url =
     newPath cfg p @
       (if CHR ''?'' \<in> set url
        then ''?'' @ (case String_split (CHR ''?'') url of
                        seg # q # segs \<Rightarrow> q
                      | _ \<Rightarrow> ''undefined'')
        else [])"

text \<open>The query string of a URL: all that follows its first \<open>?\<close>.\<close>

definition query_string :: "string \<Rightarrow> string" where
  "query_string url = drop 1 (dropWhile (\<lambda>c. c \<noteq> CHR ''?'') url)"

text \<open>The outbound request: where it goes, and the path and headers \<open>onProxyReq\<close> gives it.\<close>

record upstream_call =
  call_target :: string
  call_method :: string
  call_path :: string
  call_headers :: "(string \<times> string) list"

definition onProxyReq :: "config \<Rightarrow> request \<Rightarrow> string \<Rightarrow> upstream_call" where
  "onProxyReq cfg req target =
     \<lparr>call_target = target,
      call_method = req_method req,
      call_path = proxyReq_path cfg (req_path req) (originalUrl req),
      call_headers =
        (case x_api_key req of
           None \<Rightarrow> []
         | Some k \<Rightarrow> if k = [] then [] else [(''x-forwarded-api-key'', k)])
        @ [(''x-forwarded-by'', ''mini-api-gateway''), (''x-forwarded-for'', ip req)]\<rparr>"

text \<open>\<open>onError\<close>: the 502 answer, naming the target of the first route that starts the path.\<close>

definition onError :: "config \<Rightarrow> environment \<Rightarrow> request \<Rightarrow> response" where
  "onError cfg env req =
     \<lparr>status = 502, headers = [],
      body = Json [(''error'', JStr ''Bad Gateway''),
                   (''message'', JStr ''The upstream service is unavailable''),
                   (''service'', JStr (case router cfg (req_path req) of
                                         None \<Rightarrow> ''unknown'' | Some t \<Rightarrow> t)),
                   (''timestamp'', JIso (now_handler env))]\<rparr>"

text \<open>\<open>onProxyRes\<close>: the two headers added to a relayed answer.\<close>

definition onProxyRes :: "environment \<Rightarrow> (string \<times> json) list" where
  "onProxyRes env =
     [(''x-gateway'', JStr ''mini-api-gateway''),
      (''x-response-time'', JNum (now_handler env - startTime env))]"

text \<open>
  The proxy middleware made by \<open>createProxyMiddleware(proxyOptions)\<close>. The middleware
  (http-proxy-middleware, with the option names \<open>router\<close>, \<open>onProxyReq\<close>, \<open>onProxyRes\<close>,
  \<open>onError\<close>) puts \<open>req.originalUrl\<close> back into \<open>req.url\<close> before it calls the hooks, so
  inside them \<open>req.path\<close> and \<open>req.url\<close> are those of the request as it came in. It asks
  \<open>router\<close> for the target, lets \<open>onProxyReq\<close> shape the outbound request and sends it.
  When the upstream answers, \<open>onProxyRes\<close> adds its headers and the proxy copies the
  upstream's status and body to the client by itself: it pipes them into \<open>res\<close> and does
  not go through \<open>res.json\<close>. When the upstream cannot be reached, \<open>onError\<close> answers with
  \<open>res.status(502).json(...)\<close>. When \<open>router\<close> returns \<open>null\<close> there is no target to send
  to; the failure ends in the error handler with status 500 (the message is the library's
  and is not modelled).
\<close>

definition proxy :: "config \<Rightarrow> environment \<Rightarrow> request \<Rightarrow> response \<times> upstream_call option" where
  "proxy cfg env req =
     (case router cfg (req_path req) of
        None \<Rightarrow> (error_handler \<lparr>err_status = None, err_message = []\<rparr> env req, None)
      | Some target \<Rightarrow>
          (case upstream env of
             Unavailable \<Rightarrow> (onError cfg env req, Some (onProxyReq cfg req target))
           | Responded st b \<Rightarrow>
               (\<lparr>status = st, headers = onProxyRes env, body = Relayed b\<rparr>,
                Some (onProxyReq cfg req target))))"

text \<open>
  Express's matching with its default settings, for routes written as plain paths (no
  pattern characters): letter case is ignored; \<open>app.get(route, ...)\<close> takes a GET or HEAD
  request whose path is the route, with or without a closing \<open>/\<close>; \<open>app.use(route, ...)\<close>
  takes every request whose path starts with the route (a closing \<open>/\<close> of the route left
  off) and ends there or goes on with \<open>/\<close>, so that the route \<open>/\<close> takes every request.
\<close>

definition toLowerCase :: "string \<Rightarrow> string" where
  "toLowerCase s =
     map (\<lambda>c. case map_of (zip ''ABCDEFGHIJKLMNOPQRSTUVWXYZ'' ''abcdefghijklmnopqrstuvwxyz'') c of
                None \<Rightarrow> c
              | Some l \<Rightarrow> l) s"

definition route_match :: "string \<Rightarrow> request \<Rightarrow> bool" where
  "route_match route req \<longleftrightarrow>
     (req_method req = ''GET'' \<or> req_method req = ''HEAD'') \<and>
     (toLowerCase (req_path req) = toLowerCase route \<or>
      toLowerCase (req_path req) = toLowerCase route @ ''/'')"

definition mount_match :: "string \<Rightarrow> request \<Rightarrow> bool" where
  "mount_match route req \<longleftrightarrow>
     (let prefix = (if route \<noteq> [] \<and> last route = CHR ''/'' then butlast route else route)
      in startsWith (toLowerCase (req_path req)) (toLowerCase prefix) \<and>
         (case drop (length prefix) (req_path req) of
            [] \<Rightarrow> True
          | c # rest \<Rightarrow> c = CHR ''/''))"

text \<open>
  The handlers after the middleware stack, in the order server.js registers them:
  \<open>/health\<close>, \<open>/gateway/stats\<close>, the proxy under every configured route, and the 404
  handler. The result is the answer of the handler that takes the request (with the headers
  that handler sets) and the outbound request, if one is made.
\<close>

definition route_handlers ::
  "config \<Rightarrow> environment \<Rightarrow> gateway \<Rightarrow> request \<Rightarrow> response \<times> upstream_call option" where
  "route_handlers cfg env s req =
     (if route_match ''/health'' req
      then (\<lparr>status = 200, headers = [], body = Json (health_body cfg env)\<rparr>, None)
      else if route_match ''/gateway/stats'' req
      then (\<lparr>status = 200, headers = [], body = Json (stats_body cfg env s)\<rparr>, None)
      else if list_ex (\<lambda>(route, target). mount_match route req) cfg
      then proxy cfg env req
      else (\<lparr>status = 404, headers = [], body = Json (not_found_body cfg env req)\<rparr>, None))"

section \<open>The middleware stack\<close>

text \<open>
  One request through \<open>express.json()\<close>, \<open>authenticateApiKey\<close>, \<open>rateLimiter\<close>,
  \<open>cacheMiddleware\<close> and the route handlers, as \<open>app.use\<close> chains them. The result is the
  state of the two stores after the request, the response, and the outbound request if one
  was made. When \<open>express.json()\<close> raises an error, Express skips the stack and the route
  handlers and the error handler answers. Every JSON answer is sent by \<open>originalJson\<close>; a
  JSON answer of a route handler after a cache miss passes through the replaced \<open>res.json\<close>
  first, which stores by the status set on \<open>res\<close>.
\<close>

definition handle ::
  "config \<Rightarrow> environment \<Rightarrow> gateway \<Rightarrow> request \<Rightarrow> gateway \<times> response \<times> upstream_call option" where
  "handle cfg env s req =
     (case json_error req of
        Some error \<Rightarrow> (s, originalJson req (error_handler error env req), None)
      | None \<Rightarrow>
     (case authenticateApiKey (API_KEY env) req of
        Some r \<Rightarrow> (s, originalJson req r, None)
      | None \<Rightarrow>
          (case rateLimiter (now_rateLimiter env) (ip req) (rateLimitStore s) of
             (store, Inl r) \<Rightarrow> (s\<lparr>rateLimitStore := store\<rparr>, originalJson req r, None)
           | (store, Inr hs) \<Rightarrow>
               (let s1 = s\<lparr>rateLimitStore := store\<rparr> in
                case cacheMiddleware (now_cache env) req (cacheStore s1) of
                  Hit b \<Rightarrow>
                    (s1, originalJson req \<lparr>status = 200, headers = hs, body = Json b\<rparr>, None)
                | Bypass \<Rightarrow>
                    (case route_handlers cfg env s1 req of
                       (r, call) \<Rightarrow>
                         (s1,
                          (case body r of
                             Json d \<Rightarrow> originalJson req (r\<lparr>headers := hs @ headers r\<rparr>)
                           | Relayed b \<Rightarrow> r\<lparr>headers := hs @ headers r\<rparr>
                           | NoBody \<Rightarrow> r\<lparr>headers := hs @ headers r\<rparr>),
                          call))
                | Miss key \<Rightarrow>
                    (case route_handlers cfg env s1 req of
                       (r, call) \<Rightarrow>
                         (case body r of
                            Json d \<Rightarrow>
                              (s1\<lparr>cacheStore :=
                                    res_json key (now_store env) (status r) d (cacheStore s1)\<rparr>,
                               originalJson req (r\<lparr>headers := hs @ headers r\<rparr>), call)
                          | Relayed b \<Rightarrow> (s1, r\<lparr>headers := hs @ headers r\<rparr>, call)
                          | NoBody \<Rightarrow> (s1, r\<lparr>headers := hs @ headers r\<rparr>, call)))))))"

section \<open>Sample inputs\<close>

text \<open>
  The configuration of the README, a request from one client without a body and without
  conditional headers, and an environment in which every clock reads \<open>t\<close> and the upstream
  answers 200.
\<close>

definition sample_config :: config where
  "sample_config =
     [(''/api/users'', ''http://localhost:5001''), (''/api/orders'', ''http://localhost:5002'')]"

definition never :: "jobject \<Rightarrow> bool" where
  "never b = False"

definition sample_request :: "string \<Rightarrow> string \<Rightarrow> string option \<Rightarrow> request" where
  "sample_request m url k =
     \<lparr>req_method = m, originalUrl = url, x_api_key = k, ip = ''10.0.0.1'',
      json_error = None, conditional = never\<rparr>"

definition sample_env :: "int \<Rightarrow> environment" where
  "sample_env t =
     \<lparr>API_KEY = None, startTime = t, now_rateLimiter = t, now_cache = t, now_handler = t,
      now_store = t, uptime = JNum 7, memoryUsage = JObj [],
      upstream = Responded 200 ''users''\<rparr>"

definition empty_gateway :: gateway where
  "empty_gateway = \<lparr>rateLimitStore = [], cacheStore = []\<rparr>"

text \<open>What \<open>express.json()\<close> raises on a body that is not JSON.\<close>

definition malformed_json :: js_error where
  "malformed_json =
     \<lparr>err_status = Some 400, err_message = ''Unexpected token } in JSON at position 1''\<rparr>"

text \<open>
  A state that 100 requests leave behind. The client 10.0.0.1 asked for \<open>/gateway/stats\<close>
  at time 1000 and the answer was stored; ten other clients then sent 99 GETs of
  \<open>/health?x\<close>, \<open>/health?xx\<close>, ... at time 1500, each stored under its own key.
\<close>

definition sample_stats :: jobject where
  "sample_stats =
     [(''activeConnections'', JNum 1), (''cacheSize'', JNum 0),
      (''configuration'', JObj [(''/api/users'', JStr ''http://localhost:5001''),
                                (''/api/orders'', JStr ''http://localhost:5002'')]),
      (''memory'', JObj [])]"

definition sample_full_cache :: "cache_entry js_map" where
  "sample_full_cache =
     (''GET:/gateway/stats:gateway-secret-key'', \<lparr>data = sample_stats, timestamp = 1000\<rparr>)
     # map (\<lambda>n. (''GET:/health?'' @ replicate (Suc n) (CHR ''x'') @ '':gateway-secret-key'',
                  \<lparr>data = health_body sample_config (sample_env 1500), timestamp = 1500\<rparr>))
         [0..<99]"

definition sample_clients :: "window js_map" where
  "sample_clients =
     [(''10.0.0.1'', \<lparr>count = 1, windowStart = 1000\<rparr>),
      (''10.0.1.0'', \<lparr>count = 10, windowStart = 1500\<rparr>),
      (''10.0.1.1'', \<lparr>count = 10, windowStart = 1500\<rparr>),
      (''10.0.1.2'', \<lparr>count = 10, windowStart = 1500\<rparr>),
      (''10.0.1.3'', \<lparr>count = 10, windowStart = 1500\<rparr>),
      (''10.0.1.4'', \<lparr>count = 10, windowStart = 1500\<rparr>),
      (''10.0.1.5'', \<lparr>count = 10, windowStart = 1500\<rparr>),
      (''10.0.1.6'', \<lparr>count = 10, windowStart = 1500\<rparr>),
      (''10.0.1.7'', \<lparr>count = 10, windowStart = 1500\<rparr>),
      (''10.0.1.8'', \<lparr>count = 10, windowStart = 1500\<rparr>),
      (''10.0.1.9'', \<lparr>count = 9, windowStart = 1500\<rparr>)]"

definition sample_full_gateway :: gateway where
  "sample_full_gateway = \<lparr>rateLimitStore = sample_clients, cacheStore = sample_full_cache\<rparr>"

section \<open>Facts about the map operations\<close>

lemma Map_get_set: "Map_get (Map_set k v m) k' = (if k' = k then Some v else Map_get m k')"
  by (induction m) (auto simp: Map_get_def)

lemma Map_keys_set:
  "Map_keys (Map_set k v m) = (if k \<in> set (Map_keys m) then Map_keys m else Map_keys m @ [k])"
  by (induction m) (force simp: Map_keys_def)+

lemma distinct_Map_set: "distinct (Map_keys m) \<Longrightarrow> distinct (Map_keys (Map_set k v m))"
  by (simp add: Map_keys_set)

lemma Map_keys_delete: "Map_keys (Map_delete k m) = removeAll k (Map_keys m)"
  by (induction m) (auto simp: Map_keys_def Map_delete_def)

lemma distinct_Map_delete: "distinct (Map_keys m) \<Longrightarrow> distinct (Map_keys (Map_delete k m))"
  by (simp add: Map_keys_delete distinct_removeAll)

lemma Map_get_delete: "Map_get (Map_delete k m) k' = (if k' = k then None else Map_get m k')"
  by (induction m) (auto simp: Map_get_def Map_delete_def)

lemma Map_get_distinct: "distinct (Map_keys m) \<Longrightarrow> (k, d) \<in> set m \<Longrightarrow> Map_get m k = Some d"
  by (simp add: Map_get_def Map_keys_def)

lemma Map_get_in: "Map_get m k = Some d \<Longrightarrow> (k, d) \<in> set m"
  by (simp add: Map_get_def map_of_SomeD)

section \<open>The rate limiter\<close>

lemma sweep_get:
  "Map_get (foldl (\<lambda>m (ip, d). if now - windowStart d > windowMs then Map_delete ip m else m) m xs) k
   = (if \<exists>d. (k, d) \<in> set xs \<and> now - windowStart d > windowMs then None else Map_get m k)"
  by (induction xs arbitrary: m) (auto simp: Map_get_delete split: prod.splits)

lemma sweep_distinct:
  "distinct (Map_keys m) \<Longrightarrow>
   distinct (Map_keys (foldl (\<lambda>m (ip, d). if now - windowStart d > windowMs then Map_delete ip m else m) m xs))"
  by (induction xs arbitrary: m) (auto simp: distinct_Map_delete split: prod.splits)

text \<open>After the sweep a client has its entry if and only if its window is not over.\<close>

lemma clean_expired_get:
  assumes "distinct (Map_keys store)"
  shows "Map_get (clean_expired now store) k =
    (case Map_get store k of
       None \<Rightarrow> None
     | Some d \<Rightarrow> if now - windowStart d > windowMs then None else Some d)"
proof (cases "Map_get store k")
  case None
  then show ?thesis by (simp add: clean_expired_def sweep_get)
next
  case (Some d)
  then have "\<And>d'. (k, d') \<in> set store \<Longrightarrow> d' = d"
    using Map_get_distinct [OF assms] by fastforce
  with Some show ?thesis
    by (auto simp: clean_expired_def sweep_get dest: Map_get_in)
qed

lemma clean_expired_distinct:
  "distinct (Map_keys store) \<Longrightarrow> distinct (Map_keys (clean_expired now store))"
  by (simp add: clean_expired_def sweep_distinct)

lemma rateLimiter_distinct:
  "distinct (Map_keys store) \<Longrightarrow> distinct (Map_keys (fst (rateLimiter now c store)))"
  by (simp add: rateLimiter_def Let_def distinct_Map_set clean_expired_distinct)

text \<open>A request in a running window: the count goes up by one, the window stays.\<close>

lemma rateLimiter_live:
  assumes "distinct (Map_keys store)" and "Map_get store c = Some d"
    and "\<not> now - windowStart d > windowMs"
  shows "rateLimiter now c store =
    (Map_set c (d\<lparr>count := count d + 1\<rparr>) (clean_expired now store),
     if count d + 1 > maxRequests then Inl (res_429 now (d\<lparr>count := count d + 1\<rparr>))
     else Inr (rate_limit_headers (d\<lparr>count := count d + 1\<rparr>)))"
  using assms by (simp add: rateLimiter_def clean_expired_get Let_def)

text \<open>A request of a client without a running window opens one with count 1.\<close>

lemma rateLimiter_fresh:
  assumes "distinct (Map_keys store)"
    and "case Map_get store c of None \<Rightarrow> True | Some d \<Rightarrow> now - windowStart d > windowMs"
  shows "rateLimiter now c store =
    (Map_set c \<lparr>count = 1, windowStart = now\<rparr> (clean_expired now store),
     Inr (rate_limit_headers \<lparr>count = 1, windowStart = now\<rparr>))"
  using assms
  by (auto simp: rateLimiter_def clean_expired_get Let_def maxRequests_def split: option.splits)

text \<open>The request of another client leaves a running window as it is.\<close>

lemma rateLimiter_other:
  assumes "distinct (Map_keys store)" and "c' \<noteq> c" and "Map_get store c = Some d"
    and "\<not> now - windowStart d > windowMs"
  shows "Map_get (fst (rateLimiter now c' store)) c = Some d"
  using assms by (simp add: rateLimiter_def Let_def Map_get_set clean_expired_get)

lemma ceil_bounds:
  assumes "0 \<le> a" and "a \<le> 60000"
  shows "0 \<le> Math_ceil_div a 1000" and "Math_ceil_div a 1000 \<le> 60"
    and "0 < Math_ceil_div a 1000 \<longleftrightarrow> 0 < a"
  using assms unfolding Math_ceil_div_def by linarith+

lemma run_in_window:
  assumes "distinct (Map_keys store)"
    and "Map_get store c = Some \<lparr>count = k, windowStart = t0\<rparr>"
    and "\<forall>(clientIp, now) \<in> set evs. now - t0 \<le> windowMs"
    and "k + int (requests_of c evs) \<le> maxRequests"
  shows "outcomes_of c (rateLimiter_run store evs) =
    map (\<lambda>j. Inr [(''X-RateLimit-Limit'', JNum 10),
                  (''X-RateLimit-Remaining'', JNum (10 - (k + int j))),
                  (''X-RateLimit-Reset'', JIso (t0 + 60000))])
      [1..<Suc (requests_of c evs)]"
  using assms
proof (induction evs arbitrary: store k)
  case Nil
  then show ?case by (simp add: outcomes_of_def requests_of_def)
next
  case (Cons ev evs)
  obtain clientIp t where ev: "ev = (clientIp, t)" by (cases ev)
  from Cons.prems(3) ev have t: "\<not> t - t0 > windowMs" by simp
  from Cons.prems(3) have rest: "\<forall>(clientIp, now) \<in> set evs. now - t0 \<le> windowMs" by simp
  let ?d = "\<lparr>count = k, windowStart = t0\<rparr>"
  let ?hs = "\<lambda>i. Inr [(''X-RateLimit-Limit'', JNum 10),
                      (''X-RateLimit-Remaining'', JNum (10 - i)),
                      (''X-RateLimit-Reset'', JIso (t0 + 60000))]
             :: response + (string \<times> json) list"
  have dist: "distinct (Map_keys (fst (rateLimiter t clientIp store)))"
    by (rule rateLimiter_distinct [OF Cons.prems(1)])
  show ?case
  proof (cases "clientIp = c")
    case True
    from Cons.prems(4) ev True have k: "k + 1 + int (requests_of c evs) \<le> maxRequests"
      by (simp add: requests_of_def)
    have step: "rateLimiter t c store =
      (Map_set c \<lparr>count = k + 1, windowStart = t0\<rparr> (clean_expired t store),
       Inr (rate_limit_headers \<lparr>count = k + 1, windowStart = t0\<rparr>))"
      using rateLimiter_live [OF Cons.prems(1) Cons.prems(2), of t] t k by simp
    have get: "Map_get (fst (rateLimiter t c store)) c = Some \<lparr>count = k + 1, windowStart = t0\<rparr>"
      by (simp add: step Map_get_set)
    have hd: "rate_limit_headers \<lparr>count = k + 1, windowStart = t0\<rparr> =
      [(''X-RateLimit-Limit'', JNum 10),
       (''X-RateLimit-Remaining'', JNum (10 - (k + 1))),
       (''X-RateLimit-Reset'', JIso (t0 + 60000))]"
      using k by (simp add: rate_limit_headers_def maxRequests_def windowMs_def)
    have IH: "outcomes_of c (rateLimiter_run (fst (rateLimiter t c store)) evs) =
      map (\<lambda>j. ?hs (k + 1 + int j)) [1..<Suc (requests_of c evs)]"
      using Cons.IH [OF _ get rest k] dist True by simp
    have shift: "map (\<lambda>j. ?hs (k + int j)) [1..<Suc (Suc (requests_of c evs))]
      = ?hs (k + 1) # map (\<lambda>j. ?hs (k + 1 + int j)) [1..<Suc (requests_of c evs)]"
    proof -
      have "[1..<Suc (Suc (requests_of c evs))] = 1 # map Suc [1..<Suc (requests_of c evs)]"
        by (simp add: upt_conv_Cons map_Suc_upt del: upt_Suc)
      then show ?thesis by (simp add: comp_def add.commute add.left_commute del: upt_Suc)
    qed
    have n: "requests_of c (ev # evs) = Suc (requests_of c evs)"
      using ev True by (simp add: requests_of_def)
    have "outcomes_of c (rateLimiter_run store (ev # evs)) =
      ?hs (k + 1) # outcomes_of c (rateLimiter_run (fst (rateLimiter t c store)) evs)"
      using ev True by (simp add: outcomes_of_def step hd)
    then show ?thesis
      unfolding n shift IH .
  next
    case False
    have get: "Map_get (fst (rateLimiter t clientIp store)) c = Some ?d"
      using rateLimiter_other [OF Cons.prems(1) False Cons.prems(2), of t] t by simp
    have n: "requests_of c (ev # evs) = requests_of c evs"
      using ev False by (simp add: requests_of_def)
    from Cons.prems(4) have k: "k + int (requests_of c evs) \<le> maxRequests" by (simp add: n)
    show ?thesis
      unfolding n using Cons.IH [OF dist get rest k] ev False by (simp add: outcomes_of_def)
  qed
qed

text \<open>
  Claim C8. A client opens a window with a request at \<open>t0\<close> (it has no entry in the store, or
  its old window is over). As long as every request handled from then on, of this or any
  other client, comes no later than \<open>windowMs\<close> after \<open>t0\<close>, and the client sends at most 10
  requests in all, each of its requests is allowed, and the \<open>j\<close>-th carries
  \<open>X-RateLimit-Remaining = 10 - j\<close>: 9 for the first, one less each time, 0 for the tenth.
\<close>

theorem rateLimiter_allows_up_to_max:
  assumes "distinct (Map_keys store)"
    and "case Map_get store c of None \<Rightarrow> True | Some d \<Rightarrow> t0 - windowStart d > windowMs"
    and "\<forall>(clientIp, now) \<in> set evs. now - t0 \<le> windowMs"
    and "requests_of c ((c, t0) # evs) \<le> 10"
  shows "outcomes_of c (rateLimiter_run store ((c, t0) # evs)) =
    map (\<lambda>j. Inr [(''X-RateLimit-Limit'', JNum 10),
                  (''X-RateLimit-Remaining'', JNum (10 - int j)),
                  (''X-RateLimit-Reset'', JIso (t0 + 60000))])
      [1..<Suc (requests_of c ((c, t0) # evs))]"
proof -
  let ?hs = "\<lambda>i. Inr [(''X-RateLimit-Limit'', JNum 10),
                      (''X-RateLimit-Remaining'', JNum (10 - i)),
                      (''X-RateLimit-Reset'', JIso (t0 + 60000))]
             :: response + (string \<times> json) list"
  have step: "rateLimiter t0 c store =
    (Map_set c \<lparr>count = 1, windowStart = t0\<rparr> (clean_expired t0 store),
     Inr (rate_limit_headers \<lparr>count = 1, windowStart = t0\<rparr>))"
    by (rule rateLimiter_fresh [OF assms(1) assms(2)])
  have dist: "distinct (Map_keys (fst (rateLimiter t0 c store)))"
    by (rule rateLimiter_distinct [OF assms(1)])
  have get: "Map_get (fst (rateLimiter t0 c store)) c = Some \<lparr>count = 1, windowStart = t0\<rparr>"
    by (simp add: step Map_get_set)
  have n: "requests_of c ((c, t0) # evs) = Suc (requests_of c evs)"
    by (simp add: requests_of_def)
  from assms(4) have k: "1 + int (requests_of c evs) \<le> maxRequests"
    by (simp add: n maxRequests_def)
  have rest: "outcomes_of c (rateLimiter_run (fst (rateLimiter t0 c store)) evs) =
    map (\<lambda>j. ?hs (1 + int j)) [1..<Suc (requests_of c evs)]"
    by (rule run_in_window [OF dist get assms(3) k])
  have hd: "rate_limit_headers \<lparr>count = 1, windowStart = t0\<rparr> =
    [(''X-RateLimit-Limit'', JNum 10),
     (''X-RateLimit-Remaining'', JNum (10 - 1)),
     (''X-RateLimit-Reset'', JIso (t0 + 60000))]"
    by (simp add: rate_limit_headers_def maxRequests_def windowMs_def)
  have shift: "map (\<lambda>j. ?hs (int j)) [1..<Suc (Suc (requests_of c evs))]
    = ?hs 1 # map (\<lambda>j. ?hs (1 + int j)) [1..<Suc (requests_of c evs)]"
  proof -
    have "[1..<Suc (Suc (requests_of c evs))] = 1 # map Suc [1..<Suc (requests_of c evs)]"
      by (simp add: upt_conv_Cons map_Suc_upt del: upt_Suc)
    then show ?thesis by (simp add: comp_def add.commute del: upt_Suc)
  qed
  have "outcomes_of c (rateLimiter_run store ((c, t0) # evs)) =
    ?hs 1 # outcomes_of c (rateLimiter_run (fst (rateLimiter t0 c store)) evs)"
    by (simp add: outcomes_of_def step hd)
  then show ?thesis
    unfolding n shift rest .
qed

theorem rateLimiter_allows_up_to_max_witness:
  "outcomes_of ''10.0.0.1''
     (rateLimiter_run [(''10.0.0.1'', \<lparr>count = 12, windowStart = 0\<rparr>)]
        [(''10.0.0.1'', 70000), (''10.0.0.2'', 70001), (''10.0.0.1'', 70002),
         (''10.0.0.1'', 80000), (''10.0.0.1'', 90000), (''10.0.0.1'', 100000),
         (''10.0.0.1'', 110000), (''10.0.0.1'', 120000), (''10.0.0.1'', 125000),
         (''10.0.0.2'', 126000), (''10.0.0.1'', 129999), (''10.0.0.1'', 130000)])
   = map (\<lambda>r. Inr [(''X-RateLimit-Limit'', JNum 10),
                   (''X-RateLimit-Remaining'', JNum r),
                   (''X-RateLimit-Reset'', JIso 130000)])
       [9, 8, 7, 6, 5, 4, 3, 2, 1, 0]"
  using rateLimiter_allows_up_to_max
    [where store = "[(''10.0.0.1'', \<lparr>count = 12, windowStart = 0\<rparr>)]"
       and c = "''10.0.0.1''" and ?t0.0 = 70000 and evs =
        "[(''10.0.0.2'', 70001), (''10.0.0.1'', 70002),
          (''10.0.0.1'', 80000), (''10.0.0.1'', 90000), (''10.0.0.1'', 100000),
          (''10.0.0.1'', 110000), (''10.0.0.1'', 120000), (''10.0.0.1'', 125000),
          (''10.0.0.2'', 126000), (''10.0.0.1'', 129999), (''10.0.0.1'', 130000)]"]
  by (simp add: Map_keys_def Map_get_def windowMs_def requests_of_def upt_rec)

text \<open>
  Claim C3, as amended. A client whose window holds count 10 sends one more request while
  the window runs (\<open>windowStart \<le> now\<close> and \<open>now - windowStart \<le> windowMs\<close>, the test of
  the code for a window that is not over). The request is denied with 429 and
  \<open>retryAfter = ceil((windowMs - (now - windowStart)) / 1000)\<close>, which lies between 0 and
  60, and is greater than 0 exactly when \<open>now - windowStart < windowMs\<close>.
\<close>

theorem rateLimiter_denies_beyond_max:
  assumes "distinct (Map_keys store)"
    and "Map_get store c = Some \<lparr>count = maxRequests, windowStart = w\<rparr>"
    and "w \<le> now" and "now - w \<le> windowMs"
  shows "snd (rateLimiter now c store) =
      Inl \<lparr>status = 429, headers = [],
           body = Json [(''error'', JStr ''Rate limit exceeded. Maximum 10 requests per minute.''),
                        (''retryAfter'', JNum (Math_ceil_div (windowMs - (now - w)) 1000))]\<rparr>
    \<and> 0 \<le> Math_ceil_div (windowMs - (now - w)) 1000
    \<and> Math_ceil_div (windowMs - (now - w)) 1000 \<le> 60
    \<and> (0 < Math_ceil_div (windowMs - (now - w)) 1000 \<longleftrightarrow> now - w < windowMs)"
proof -
  have "snd (rateLimiter now c store) =
      Inl (res_429 now \<lparr>count = maxRequests + 1, windowStart = w\<rparr>)"
    using rateLimiter_live [OF assms(1) assms(2), of now] assms(4) by simp
  moreover have "0 \<le> windowMs - (now - w)" "windowMs - (now - w) \<le> 60000"
    using assms(3,4) by (simp_all add: windowMs_def)
  ultimately show ?thesis
    using ceil_bounds [of "windowMs - (now - w)"] by (simp add: res_429_def)
qed

theorem rateLimiter_denies_beyond_max_witness:
  "snd (rateLimiter 30500 ''10.0.0.1'' [(''10.0.0.1'', \<lparr>count = 10, windowStart = 0\<rparr>)]) =
     Inl \<lparr>status = 429, headers = [],
          body = Json [(''error'', JStr ''Rate limit exceeded. Maximum 10 requests per minute.''),
                       (''retryAfter'', JNum 30)]\<rparr>"
  using rateLimiter_denies_beyond_max
    [where store = "[(''10.0.0.1'', \<lparr>count = 10, windowStart = 0\<rparr>)]"
       and c = "''10.0.0.1''" and w = 0 and now = 30500]
  by (simp add: Map_keys_def Map_get_def maxRequests_def windowMs_def Math_ceil_div_def)

text \<open>
  Claim C3 as stated fails at the last instant of the window: with
  \<open>now - windowStart = windowMs\<close> the window is not over for the code
  (\<open>now - windowStart > windowMs\<close> is false), the eleventh request is denied, and
  \<open>retryAfter\<close> is 0.
\<close>

theorem retryAfter_zero_at_window_end:
  "Map_get [(''10.0.0.1'', \<lparr>count = 10, windowStart = 0\<rparr>)] ''10.0.0.1''
     = Some \<lparr>count = maxRequests, windowStart = 0\<rparr>
   \<and> \<not> 60000 - 0 > windowMs
   \<and> snd (rateLimiter 60000 ''10.0.0.1'' [(''10.0.0.1'', \<lparr>count = 10, windowStart = 0\<rparr>)]) =
       Inl \<lparr>status = 429, headers = [],
            body = Json [(''error'', JStr ''Rate limit exceeded. Maximum 10 requests per minute.''),
                         (''retryAfter'', JNum 0)]\<rparr>"
  by (simp add: rateLimiter_def clean_expired_def Map_get_def Map_delete_def maxRequests_def
      windowMs_def res_429_def Math_ceil_div_def)

section \<open>The cache\<close>

lemma Map_delete_absent: "k \<notin> set (Map_keys m) \<Longrightarrow> Map_delete k m = m"
  by (induction m) (auto simp: Map_delete_def Map_keys_def)

text \<open>On a map, deleting the first \<open>n\<close> keys one by one drops the \<open>n\<close> oldest entries.\<close>

lemma delete_oldest:
  "distinct (Map_keys m) \<Longrightarrow> foldl (\<lambda>m k. Map_delete k m) m (take n (Map_keys m)) = drop n m"
proof (induction m arbitrary: n)
  case Nil
  then show ?case by (simp add: Map_keys_def)
next
  case (Cons p m)
  obtain k v where p: "p = (k, v)" by (cases p)
  from Cons.prems p have notin: "k \<notin> set (Map_keys m)" and dist: "distinct (Map_keys m)"
    by (simp_all add: Map_keys_def)
  show ?case
  proof (cases n)
    case 0
    then show ?thesis by simp
  next
    case (Suc n')
    have "Map_delete k (p # m) = m"
      using Map_delete_absent [OF notin] p by (simp add: Map_delete_def)
    then show ?thesis
      using Cons.IH [OF dist, of n'] Suc p by (simp add: Map_keys_def)
  qed
qed

lemma Map_get_delete_all:
  "Map_get (foldl (\<lambda>m k. Map_delete k m) m ks) k' = (if k' \<in> set ks then None else Map_get m k')"
  by (induction ks arbitrary: m) (auto simp: Map_get_delete)

lemma length_Map_set:
  "length (Map_set k v m) = (if k \<in> set (Map_keys m) then length m else Suc (length m))"
  by (induction m) (force simp: Map_keys_def)+

lemma Map_set_absent: "k \<notin> set (Map_keys m) \<Longrightarrow> Map_set k v m = m @ [(k, v)]"
  by (induction m) (auto simp: Map_keys_def)

lemma Map_keys_drop: "Map_keys (drop n m) = drop n (Map_keys m)"
  by (simp add: Map_keys_def drop_map)

text \<open>A store with status 200, on a map: insert, then drop the ten oldest if over 100.\<close>

lemma res_json_200:
  assumes "distinct (Map_keys cache)"
  shows "res_json key now 200 d cache =
    (if length (Map_set key \<lparr>data = d, timestamp = now\<rparr> cache) > 100
     then drop 10 (Map_set key \<lparr>data = d, timestamp = now\<rparr> cache)
     else Map_set key \<lparr>data = d, timestamp = now\<rparr> cache)"
  using delete_oldest [OF distinct_Map_set [OF assms], of key "\<lparr>data = d, timestamp = now\<rparr>" 10]
  by (simp add: res_json_def Let_def Map_size_def)

lemma res_json_other: "statusCode \<noteq> 200 \<Longrightarrow> res_json key now statusCode d cache = cache"
  by (simp add: res_json_def)

text \<open>
  The invariant of \<open>cacheStore\<close>: its keys are distinct and it holds at most 100 entries.
  Every store keeps it, so it holds in every cache that grew from the empty one.
\<close>

lemma res_json_invariant:
  assumes "distinct (Map_keys cache)" and "length cache \<le> 100"
  shows "distinct (Map_keys (res_json key now statusCode d cache))"
    and "length (res_json key now statusCode d cache) \<le> 100"
proof -
  let ?c = "Map_set key \<lparr>data = d, timestamp = now\<rparr> cache"
  have dist: "distinct (Map_keys ?c)" by (rule distinct_Map_set [OF assms(1)])
  have len: "length ?c \<le> 101" using assms(2) by (simp add: length_Map_set)
  show "distinct (Map_keys (res_json key now statusCode d cache))"
    using dist assms(1)
    by (cases "statusCode = 200") (simp_all add: res_json_200 res_json_other Map_keys_drop)
  show "length (res_json key now statusCode d cache) \<le> 100"
  proof (cases "statusCode = 200")
    case True
    have "length (drop 10 ?c) \<le> 100" using len by simp
    then show ?thesis using True assms(1) by (simp add: res_json_200)
  next
    case False
    then show ?thesis using assms(2) by (simp add: res_json_other)
  qed
qed

lemma res_json_run_invariant:
  assumes "distinct (Map_keys cache)" and "length cache \<le> 100"
  shows "distinct (Map_keys (res_json_run cache evs)) \<and> length (res_json_run cache evs) \<le> 100"
  using assms
proof (induction evs arbitrary: cache)
  case Nil
  then show ?case by simp
next
  case (Cons ev evs)
  obtain key now statusCode d where ev: "ev = (key, now, statusCode, d)"
    by (cases ev) auto
  show ?case
    unfolding ev res_json_run.simps
    by (rule Cons.IH [OF res_json_invariant [OF Cons.prems]])
qed

text \<open>Under the invariant, the entry just stored is in the cache, whatever was evicted.\<close>

lemma res_json_stored:
  assumes "distinct (Map_keys cache)" and "length cache \<le> 100"
  shows "Map_get (res_json key now 200 d cache) key = Some \<lparr>data = d, timestamp = now\<rparr>"
proof (cases "key \<in> set (Map_keys cache)")
  case True
  then show ?thesis
    using assms by (simp add: res_json_200 length_Map_set Map_get_set)
next
  case False
  let ?e = "\<lparr>data = d, timestamp = now\<rparr>"
  have set: "Map_set key ?e cache = cache @ [(key, ?e)]"
    by (rule Map_set_absent [OF False])
  show ?thesis
  proof (cases "length (Map_set key ?e cache) > 100")
    case True
    from False have "map_of (drop 10 cache) key = None"
      by (auto simp: Map_keys_def map_of_eq_None_iff dest: in_set_dropD)
    then have "Map_get (drop 10 cache @ [(key, ?e)]) key = Some ?e"
      by (simp add: Map_get_def map_add_def)
    moreover have "res_json key now 200 d cache = drop 10 cache @ [(key, ?e)]"
      using True assms by (simp add: res_json_200 set)
    ultimately show ?thesis by simp
  next
    case False
    then have "res_json key now 200 d cache = Map_set key ?e cache"
      using assms(1) by (simp add: res_json_200)
    then show ?thesis by (simp add: Map_get_set)
  qed
qed

text \<open>
  Claim C6. Take the cache after any run of stores from the empty cache, and one more store.
  With a status other than 200 the cache stays as it is. With status 200 the entry is set,
  and if that makes the size exceed 100, the ten oldest entries in insertion order are
  dropped at once, which leaves 91 entries. The size never exceeds 100 after a store.
\<close>

theorem cache_store_bounded:
  "(statusCode \<noteq> 200 \<longrightarrow>
      res_json key now statusCode d (res_json_run [] evs) = res_json_run [] evs)
   \<and> (statusCode = 200 \<and>
       Map_size (Map_set key \<lparr>data = d, timestamp = now\<rparr> (res_json_run [] evs)) > 100 \<longrightarrow>
      res_json key now statusCode d (res_json_run [] evs)
        = drop 10 (Map_set key \<lparr>data = d, timestamp = now\<rparr> (res_json_run [] evs))
      \<and> Map_size (res_json key now statusCode d (res_json_run [] evs)) = 91
      \<and> Map_size (res_json key now statusCode d (res_json_run [] evs)) \<le> 100 - 10 + 1)
   \<and> (statusCode = 200 \<and>
       Map_size (Map_set key \<lparr>data = d, timestamp = now\<rparr> (res_json_run [] evs)) \<le> 100 \<longrightarrow>
      res_json key now statusCode d (res_json_run [] evs)
        = Map_set key \<lparr>data = d, timestamp = now\<rparr> (res_json_run [] evs))
   \<and> Map_size (res_json key now statusCode d (res_json_run [] evs)) \<le> 100"
proof -
  let ?cache = "res_json_run [] evs"
  let ?c = "Map_set key \<lparr>data = d, timestamp = now\<rparr> ?cache"
  have inv: "distinct (Map_keys ?cache)" "length ?cache \<le> 100"
    using res_json_run_invariant [of "[]" evs] by (simp_all add: Map_keys_def)
  have len: "length ?c \<le> 101" using inv(2) by (simp add: length_Map_set)
  have "length (res_json key now statusCode d ?cache) \<le> 100"
    by (rule res_json_invariant(2) [OF inv])
  moreover have "statusCode = 200 \<Longrightarrow> length ?c > 100 \<Longrightarrow>
      res_json key now statusCode d ?cache = drop 10 ?c \<and> length (drop 10 ?c) = 91"
    using len by (simp add: res_json_200 [OF inv(1)])
  moreover have "statusCode = 200 \<Longrightarrow> length ?c \<le> 100 \<Longrightarrow>
      res_json key now statusCode d ?cache = ?c"
    by (simp add: res_json_200 [OF inv(1)])
  ultimately show ?thesis
    by (auto simp: Map_size_def res_json_other)
qed

text \<open>A run of stores with status 200 under new keys only appends while there is room.\<close>

lemma res_json_run_append:
  assumes "distinct (map fst evs)" and "set (map fst evs) \<inter> set (Map_keys cache) = {}"
    and "length cache + length evs \<le> 100"
    and "\<forall>ev \<in> set evs. fst (snd (snd ev)) = 200"
  shows "res_json_run cache evs =
    cache @ map (\<lambda>(key, now, statusCode, d). (key, \<lparr>data = d, timestamp = now\<rparr>)) evs"
  using assms
proof (induction evs arbitrary: cache)
  case Nil
  then show ?case by simp
next
  case (Cons ev evs)
  obtain key now statusCode d where ev: "ev = (key, now, statusCode, d)"
    by (cases ev) auto
  from Cons.prems ev have st: "statusCode = 200" and new: "key \<notin> set (Map_keys cache)"
    by auto
  let ?e = "\<lparr>data = d, timestamp = now\<rparr>"
  have step: "res_json key now statusCode d cache = cache @ [(key, ?e)]"
    using Cons.prems(3) st by (simp add: res_json_def Let_def Map_size_def Map_set_absent [OF new])
  have "res_json_run (cache @ [(key, ?e)]) evs =
    (cache @ [(key, ?e)]) @ map (\<lambda>(key, now, statusCode, d). (key, \<lparr>data = d, timestamp = now\<rparr>)) evs"
    using Cons.prems ev by (intro Cons.IH) (auto simp: Map_keys_def)
  then show ?case by (simp add: ev step)
qed

theorem cache_store_bounded_witness:
  "Map_size (Map_set ''GET:/gateway/stats:k'' \<lparr>data = [], timestamp = 5\<rparr>
      (res_json_run []
        (map (\<lambda>n. (''GET:/health?'' @ replicate n (CHR ''x''), 0, 200, [])) [0..<100]))) = 101
   \<and> res_json ''GET:/gateway/stats:k'' 5 200 []
        (res_json_run []
          (map (\<lambda>n. (''GET:/health?'' @ replicate n (CHR ''x''), 0, 200, [])) [0..<100]))
      = drop 10 (Map_set ''GET:/gateway/stats:k'' \<lparr>data = [], timestamp = 5\<rparr>
          (res_json_run []
            (map (\<lambda>n. (''GET:/health?'' @ replicate n (CHR ''x''), 0, 200, [])) [0..<100])))
   \<and> Map_size (res_json ''GET:/gateway/stats:k'' 5 200 []
        (res_json_run []
          (map (\<lambda>n. (''GET:/health?'' @ replicate n (CHR ''x''), 0, 200, [])) [0..<100]))) = 91
   \<and> res_json ''GET:/nope:k'' 5 404 [(''error'', JStr ''Route not found'')] (res_json_run [] [])
      = res_json_run [] []
   \<and> res_json ''GET:/health:k'' 5 200 [] (res_json_run [] [])
      = Map_set ''GET:/health:k'' \<lparr>data = [], timestamp = 5\<rparr> (res_json_run [] [])"
proof -
  define evs :: "(string \<times> int \<times> nat \<times> jobject) list"
    where "evs = map (\<lambda>n. (''GET:/health?'' @ replicate n (CHR ''x''), 0, 200, [])) [0..<100]"
  have keys: "map fst evs = map (\<lambda>n. ''GET:/health?'' @ replicate n (CHR ''x'')) [0..<100]"
    by (simp add: evs_def comp_def)
  have dist: "distinct (map fst evs)"
    unfolding keys by (simp add: distinct_map inj_on_def)
  have run: "res_json_run [] evs =
    map (\<lambda>(key, now, statusCode, d). (key, \<lparr>data = d, timestamp = now\<rparr>)) evs"
    using res_json_run_append [OF dist, of "[]"] by (simp add: Map_keys_def evs_def)
  have "Map_keys (res_json_run [] evs) = map fst evs"
    unfolding run by (simp add: Map_keys_def comp_def case_prod_unfold)
  then have new: "''GET:/gateway/stats:k'' \<notin> set (Map_keys (res_json_run [] evs))"
    unfolding keys by auto
  have len: "length (res_json_run [] evs) = 100"
    unfolding run by (simp add: evs_def)
  have size: "Map_size (Map_set ''GET:/gateway/stats:k'' \<lparr>data = [], timestamp = 5\<rparr>
      (res_json_run [] evs)) = 101"
    using new len by (simp add: Map_size_def length_Map_set)
  then have gt: "Map_size (Map_set ''GET:/gateway/stats:k'' \<lparr>data = [], timestamp = 5\<rparr>
      (res_json_run [] evs)) > 100"
    by simp
  note crossing = cache_store_bounded
      [where statusCode = 200 and key = "''GET:/gateway/stats:k''" and now = 5 and d = "[]"
         and evs = evs, THEN conjunct2, THEN conjunct1, rule_format, OF conjI [OF refl gt]]
  have other: "res_json ''GET:/nope:k'' 5 404 [(''error'', JStr ''Route not found'')]
      (res_json_run [] []) = res_json_run [] []"
    using cache_store_bounded
      [where statusCode = 404 and key = "''GET:/nope:k''" and now = 5
         and d = "[(''error'', JStr ''Route not found'')]" and evs = "[]"]
    by simp
  have room: "res_json ''GET:/health:k'' 5 200 [] (res_json_run [] [])
      = Map_set ''GET:/health:k'' \<lparr>data = [], timestamp = 5\<rparr> (res_json_run [] [])"
    using cache_store_bounded
      [where statusCode = 200 and key = "''GET:/health:k''" and now = 5 and d = "[]"
         and evs = "[]"]
    by (simp add: Map_size_def)
  show ?thesis
    unfolding evs_def [symmetric]
    using size crossing other room by blast
qed

text \<open>
  A store under one key changes what a lookup under another key finds in one way only: it
  may evict the other entry.
\<close>

lemma res_json_other_key:
  assumes "key' \<noteq> key"
  shows "Map_get (res_json key now statusCode d cache) key' = Map_get cache key'
       \<or> Map_get (res_json key now statusCode d cache) key' = None"
  using assms by (simp add: res_json_def Let_def Map_get_delete_all Map_get_set)

text \<open>
  Claim C9. Two requests with the same method and URL and different credentials have
  different cache keys, so a response stored for the first is never the hit of the second:
  after the store, the lookup of the second request gives what it gave before, or a miss
  (when the store evicted the second request's own entry).
\<close>

theorem distinct_credentials_never_share_entries:
  assumes "k1 \<noteq> k2"
    and "x_api_key r1 = Some k1" and "x_api_key r2 = Some k2"
    and "req_method r2 = req_method r1" and "originalUrl r2 = originalUrl r1"
  shows "cacheKey r1 \<noteq> cacheKey r2
    \<and> (cacheMiddleware t r2 (res_json (cacheKey r1) now statusCode d cache)
          = cacheMiddleware t r2 cache
       \<or> cacheMiddleware t r2 (res_json (cacheKey r1) now statusCode d cache)
          = Miss (cacheKey r2))"
proof -
  have keys: "cacheKey r2 \<noteq> cacheKey r1"
    using assms by (simp add: cacheKey_def)
  from res_json_other_key [OF keys, of now statusCode d cache]
  show ?thesis
    using keys by (auto simp: cacheMiddleware_def)
qed

theorem distinct_credentials_never_share_entries_witness:
  "cacheKey (sample_request ''GET'' ''/gateway/stats'' (Some ''key-of-alice''))
     \<noteq> cacheKey (sample_request ''GET'' ''/gateway/stats'' (Some ''key-of-bob''))
   \<and> cacheMiddleware 1001 (sample_request ''GET'' ''/gateway/stats'' (Some ''key-of-bob''))
       (res_json (cacheKey (sample_request ''GET'' ''/gateway/stats'' (Some ''key-of-alice'')))
          1000 200 [(''cacheSize'', JNum 0)] [])
     = Miss (cacheKey (sample_request ''GET'' ''/gateway/stats'' (Some ''key-of-bob'')))"
  using distinct_credentials_never_share_entries
    [where ?k1.0 = "''key-of-alice''" and ?k2.0 = "''key-of-bob''"
       and ?r1.0 = "sample_request ''GET'' ''/gateway/stats'' (Some ''key-of-alice'')"
       and ?r2.0 = "sample_request ''GET'' ''/gateway/stats'' (Some ''key-of-bob'')"
       and t = 1001 and now = 1000 and statusCode = 200 and d = "[(''cacheSize'', JNum 0)]"
       and cache = "[]"]
  by (simp add: sample_request_def cacheMiddleware_def Map_get_def)

section \<open>Sending with res.json\<close>

lemma originalJson_headers: "headers (originalJson req r) = headers r"
  by (simp add: originalJson_def)

lemma originalJson_error_status:
  "400 \<le> status r \<Longrightarrow> originalJson req r = r"
  by (simp add: originalJson_def req_fresh_def)

lemma originalJson_unconditional:
  "conditional req = never \<Longrightarrow> originalJson req r = r"
  by (simp add: originalJson_def req_fresh_def never_def split: payload.splits)

section \<open>Authentication\<close>

lemma validApiKey_nonempty: "validApiKey k \<noteq> []"
  by (simp add: validApiKey_def split: option.splits)

lemma authenticateApiKey_pass:
  "authenticateApiKey k req = None \<longleftrightarrow> x_api_key req = Some (validApiKey k)"
  using validApiKey_nonempty [of k]
  by (auto simp: authenticateApiKey_def split: option.splits)

text \<open>
  Claim C5, as amended. A request without the header \<open>x-api-key\<close>, or with a value that is
  not the configured key, never reaches the rate limiter or the cache: the two stores are
  returned as they were, no outbound request is made, and the answer is the same whatever
  the stores hold. The answer is the 401 of \<open>authenticateApiKey\<close> when \<open>express.json()\<close>
  accepts the body; when it raises an error, the error handler answers with that error
  (status 400 for malformed JSON) and \<open>authenticateApiKey\<close> is not run.
\<close>

theorem auth_failure_leaves_state_untouched:
  assumes "x_api_key req \<noteq> Some (validApiKey (API_KEY env))"
  shows "handle cfg env s req =
      (s,
       (case json_error req of
          Some error \<Rightarrow> originalJson req (error_handler error env req)
        | None \<Rightarrow>
            if x_api_key req = None \<or> x_api_key req = Some []
            then res_401_missing else res_401_invalid),
       None)
    \<and> (json_error req = None \<longrightarrow> status (fst (snd (handle cfg env s req))) = 401)
    \<and> snd (handle cfg env s req) = snd (handle cfg env s' req)"
proof (cases "json_error req")
  case (Some error)
  then show ?thesis by (simp add: handle_def)
next
  case None
  have "originalJson req res_401_missing = res_401_missing"
    "originalJson req res_401_invalid = res_401_invalid"
    by (simp_all add: originalJson_error_status res_401_missing_def res_401_invalid_def)
  with None assms show ?thesis
    by (auto simp: handle_def authenticateApiKey_def res_401_missing_def res_401_invalid_def
        split: option.splits)
qed

theorem auth_failure_leaves_state_untouched_witness:
  "handle sample_config (sample_env 1000)
     \<lparr>rateLimitStore = [(''10.0.0.1'', \<lparr>count = 3, windowStart = 0\<rparr>)],
      cacheStore = [(''GET:/api/users:wrong-key'', \<lparr>data = [], timestamp = 900\<rparr>)]\<rparr>
     (sample_request ''GET'' ''/api/users'' (Some ''wrong-key''))
   = (\<lparr>rateLimitStore = [(''10.0.0.1'', \<lparr>count = 3, windowStart = 0\<rparr>)],
       cacheStore = [(''GET:/api/users:wrong-key'', \<lparr>data = [], timestamp = 900\<rparr>)]\<rparr>,
      \<lparr>status = 401, headers = [], body = Json [(''error'', JStr ''Invalid API key.'')]\<rparr>,
      None)
   \<and> status (fst (snd (handle sample_config (sample_env 1000)
     \<lparr>rateLimitStore = [(''10.0.0.1'', \<lparr>count = 3, windowStart = 0\<rparr>)],
      cacheStore = [(''GET:/api/users:wrong-key'', \<lparr>data = [], timestamp = 900\<rparr>)]\<rparr>
     (sample_request ''GET'' ''/api/users'' (Some ''wrong-key''))))) = 401
   \<and> handle sample_config (sample_env 1000)
     \<lparr>rateLimitStore = [(''10.0.0.1'', \<lparr>count = 3, windowStart = 0\<rparr>)],
      cacheStore = [(''GET:/api/users:wrong-key'', \<lparr>data = [], timestamp = 900\<rparr>)]\<rparr>
     ((sample_request ''POST'' ''/api/users'' None)\<lparr>json_error := Some malformed_json\<rparr>)
   = (\<lparr>rateLimitStore = [(''10.0.0.1'', \<lparr>count = 3, windowStart = 0\<rparr>)],
       cacheStore = [(''GET:/api/users:wrong-key'', \<lparr>data = [], timestamp = 900\<rparr>)]\<rparr>,
      \<lparr>status = 400, headers = [],
       body = Json [(''error'', JStr ''Unexpected token } in JSON at position 1''),
                    (''timestamp'', JIso 1000), (''path'', JStr ''/api/users''),
                    (''method'', JStr ''POST'')]\<rparr>,
      None)"
proof -
  let ?s = "\<lparr>rateLimitStore = [(''10.0.0.1'', \<lparr>count = 3, windowStart = 0\<rparr>)],
            cacheStore = [(''GET:/api/users:wrong-key'', \<lparr>data = [], timestamp = 900\<rparr>)]\<rparr>"
  let ?wrong = "sample_request ''GET'' ''/api/users'' (Some ''wrong-key'')"
  let ?bad = "(sample_request ''POST'' ''/api/users'' None)\<lparr>json_error := Some malformed_json\<rparr>"
  have wrong: "x_api_key ?wrong \<noteq> Some (validApiKey (API_KEY (sample_env 1000)))"
    and body: "json_error ?wrong = None"
    and bad: "x_api_key ?bad \<noteq> Some (validApiKey (API_KEY (sample_env 1000)))"
    by (simp_all add: sample_request_def sample_env_def validApiKey_def)
  note first = auth_failure_leaves_state_untouched
    [OF wrong, where cfg = sample_config and s = ?s]
  note second = auth_failure_leaves_state_untouched
    [OF bad, where cfg = sample_config and s = ?s, THEN conjunct1]
  have answer: "originalJson ?bad (error_handler malformed_json (sample_env 1000) ?bad) =
      \<lparr>status = 400, headers = [],
       body = Json [(''error'', JStr ''Unexpected token } in JSON at position 1''),
                    (''timestamp'', JIso 1000), (''path'', JStr ''/api/users''),
                    (''method'', JStr ''POST'')]\<rparr>"
    by (simp add: originalJson_def req_fresh_def error_handler_def malformed_json_def
        sample_request_def sample_env_def)
  have "json_error ?bad = Some malformed_json" by simp
  with second answer have third: "handle sample_config (sample_env 1000) ?s ?bad =
      (?s, \<lparr>status = 400, headers = [],
             body = Json [(''error'', JStr ''Unexpected token } in JSON at position 1''),
                          (''timestamp'', JIso 1000), (''path'', JStr ''/api/users''),
                          (''method'', JStr ''POST'')]\<rparr>, None)"
    by simp
  from first body have "handle sample_config (sample_env 1000) ?s ?wrong =
      (?s, \<lparr>status = 401, headers = [], body = Json [(''error'', JStr ''Invalid API key.'')]\<rparr>,
       None)"
    and "status (fst (snd (handle sample_config (sample_env 1000) ?s ?wrong))) = 401"
    by (simp_all add: sample_request_def res_401_invalid_def)
  with third show ?thesis by simp
qed

text \<open>
  Claim C5 as stated fails on a request that \<open>express.json()\<close> rejects: a POST without the
  header \<open>x-api-key\<close> and with a body that is not JSON is answered by the error handler
  with status 400, not 401. The stores stay as they were.
\<close>

theorem malformed_body_without_key_is_answered_400:
  "x_api_key ((sample_request ''POST'' ''/api/users'' None)\<lparr>json_error := Some malformed_json\<rparr>)
     = None
   \<and> status (fst (snd (handle sample_config (sample_env 1000) empty_gateway
        ((sample_request ''POST'' ''/api/users'' None)\<lparr>json_error := Some malformed_json\<rparr>))))
     = 400
   \<and> fst (handle sample_config (sample_env 1000) empty_gateway
        ((sample_request ''POST'' ''/api/users'' None)\<lparr>json_error := Some malformed_json\<rparr>))
     = empty_gateway"
  by (simp add: handle_def sample_request_def originalJson_def req_fresh_def error_handler_def
      malformed_json_def)

text \<open>
  Claim C2 against the code. \<open>authenticateApiKey\<close> is mounted with \<open>app.use\<close> before
  \<open>app.get('/health', ...)\<close>, so a GET of \<open>/health\<close> without the header never reaches the
  health handler: whatever the configuration, the environment and the state, the answer is
  the 401 of the missing key.
\<close>

theorem health_without_key_is_rejected:
  "handle cfg env s
     \<lparr>req_method = ''GET'', originalUrl = ''/health'', x_api_key = None, ip = clientIp,
      json_error = None, conditional = c\<rparr>
     = (s, \<lparr>status = 401, headers = [],
            body = Json [(''error'', JStr ''Missing API key. Please provide x-api-key header.'')]\<rparr>,
        None)"
  by (simp add: handle_def authenticateApiKey_def res_401_missing_def originalJson_def
      req_fresh_def)

section \<open>The rate-limit headers on responses\<close>

lemma rateLimiter_headers:
  "rateLimiter now c store = (store', Inr hs) \<Longrightarrow>
   \<exists>remaining reset. hs = [(''X-RateLimit-Limit'', JNum 10),
                            (''X-RateLimit-Remaining'', JNum remaining),
                            (''X-RateLimit-Reset'', JIso reset)]"
  by (auto simp: rateLimiter_def Let_def rate_limit_headers_def maxRequests_def
      split: if_splits)

lemma rateLimiter_denial:
  "rateLimiter now c store = (store', Inl r) \<Longrightarrow> status r = 429 \<and> headers r = []"
  by (auto simp: rateLimiter_def Let_def res_429_def split: if_splits)

text \<open>
  Claim C4, as amended. For a request that passes authentication (the body parser has let
  it through to \<open>authenticateApiKey\<close>, which calls \<open>next()\<close>): if the rate limiter allows
  it, the response (a cached answer, the answer of a route handler, or a relayed upstream
  answer) starts its headers with \<open>X-RateLimit-Limit = 10\<close>, \<open>X-RateLimit-Remaining\<close> and
  \<open>X-RateLimit-Reset\<close>; if the rate limiter denies it, the response is the 429 answer,
  which carries no header set by server.js.
\<close>

theorem rate_limit_headers_on_allowed_requests:
  assumes "json_error req = None"
    and "authenticateApiKey (API_KEY env) req = None"
  shows "case snd (rateLimiter (now_rateLimiter env) (ip req) (rateLimitStore s)) of
           Inr hs \<Rightarrow>
             (\<exists>rest. headers (fst (snd (handle cfg env s req))) = hs @ rest)
             \<and> (\<exists>remaining reset.
                  hs = [(''X-RateLimit-Limit'', JNum 10),
                        (''X-RateLimit-Remaining'', JNum remaining),
                        (''X-RateLimit-Reset'', JIso reset)])
         | Inl r \<Rightarrow>
             fst (snd (handle cfg env s req)) = r \<and> status r = 429 \<and> headers r = []"
proof (cases "rateLimiter (now_rateLimiter env) (ip req) (rateLimitStore s)")
  case (Pair store out)
  show ?thesis
  proof (cases out)
    case (Inl r)
    from Pair Inl rateLimiter_denial [of _ _ _ store r]
    have r: "status r = 429" "headers r = []" by simp_all
    then have "originalJson req r = r" by (simp add: originalJson_error_status)
    with Pair Inl assms r show ?thesis
      by (simp add: handle_def)
  next
    case (Inr hs)
    with Pair assms rateLimiter_headers [of _ _ _ store hs] show ?thesis
      by (auto simp: handle_def Let_def originalJson_headers
          split: cache_outcome.splits prod.splits payload.splits)
  qed
qed

theorem rate_limit_headers_on_allowed_requests_witness:
  "headers (fst (snd (handle sample_config (sample_env 1000) empty_gateway
       (sample_request ''GET'' ''/api/users/7'' (Some ''gateway-secret-key'')))))
   = [(''X-RateLimit-Limit'', JNum 10), (''X-RateLimit-Remaining'', JNum 9),
      (''X-RateLimit-Reset'', JIso 61000)]
     @ [(''x-gateway'', JStr ''mini-api-gateway''), (''x-response-time'', JNum 0)]"
proof -
  have parsed: "json_error (sample_request ''GET'' ''/api/users/7'' (Some ''gateway-secret-key''))
      = None"
    by (simp add: sample_request_def)
  have auth: "authenticateApiKey (API_KEY (sample_env 1000))
      (sample_request ''GET'' ''/api/users/7'' (Some ''gateway-secret-key'')) = None"
    by (simp add: authenticateApiKey_def sample_env_def sample_request_def validApiKey_def)
  have rl: "rateLimiter (now_rateLimiter (sample_env 1000))
      (ip (sample_request ''GET'' ''/api/users/7'' (Some ''gateway-secret-key'')))
      (rateLimitStore empty_gateway)
    = ([(''10.0.0.1'', \<lparr>count = 1, windowStart = 1000\<rparr>)],
       Inr [(''X-RateLimit-Limit'', JNum 10), (''X-RateLimit-Remaining'', JNum 9),
            (''X-RateLimit-Reset'', JIso 61000)])"
    by (simp add: rateLimiter_def clean_expired_def Map_get_def sample_env_def
        sample_request_def empty_gateway_def rate_limit_headers_def maxRequests_def windowMs_def)
  have "\<exists>rest. headers (fst (snd (handle sample_config (sample_env 1000) empty_gateway
       (sample_request ''GET'' ''/api/users/7'' (Some ''gateway-secret-key'')))))
     = [(''X-RateLimit-Limit'', JNum 10), (''X-RateLimit-Remaining'', JNum 9),
        (''X-RateLimit-Reset'', JIso 61000)] @ rest"
    using rate_limit_headers_on_allowed_requests
      [OF parsed auth, where s = empty_gateway and cfg = sample_config]
    by (simp add: rl)
  moreover have "drop 3 (headers (fst (snd (handle sample_config (sample_env 1000) empty_gateway
       (sample_request ''GET'' ''/api/users/7'' (Some ''gateway-secret-key''))))))
     = [(''x-gateway'', JStr ''mini-api-gateway''), (''x-response-time'', JNum 0)]"
    by code_simp
  ultimately show ?thesis by auto
qed

text \<open>
  Claim C4 as stated fails on a denied request: the client already has count 10 in its
  window, the request passes authentication, is denied with 429, and the response has none
  of the three headers.
\<close>

theorem denied_response_has_no_rate_limit_headers:
  "authenticateApiKey (API_KEY (sample_env 1000))
     (sample_request ''GET'' ''/api/users'' (Some ''gateway-secret-key'')) = None
   \<and> status (fst (snd (handle sample_config (sample_env 1000)
        \<lparr>rateLimitStore = [(''10.0.0.1'', \<lparr>count = 10, windowStart = 0\<rparr>)], cacheStore = []\<rparr>
        (sample_request ''GET'' ''/api/users'' (Some ''gateway-secret-key''))))) = 429
   \<and> map_of (headers (fst (snd (handle sample_config (sample_env 1000)
        \<lparr>rateLimitStore = [(''10.0.0.1'', \<lparr>count = 10, windowStart = 0\<rparr>)], cacheStore = []\<rparr>
        (sample_request ''GET'' ''/api/users'' (Some ''gateway-secret-key''))))))
        ''X-RateLimit-Limit'' = None
   \<and> map_of (headers (fst (snd (handle sample_config (sample_env 1000)
        \<lparr>rateLimitStore = [(''10.0.0.1'', \<lparr>count = 10, windowStart = 0\<rparr>)], cacheStore = []\<rparr>
        (sample_request ''GET'' ''/api/users'' (Some ''gateway-secret-key''))))))
        ''X-RateLimit-Remaining'' = None
   \<and> map_of (headers (fst (snd (handle sample_config (sample_env 1000)
        \<lparr>rateLimitStore = [(''10.0.0.1'', \<lparr>count = 10, windowStart = 0\<rparr>)], cacheStore = []\<rparr>
        (sample_request ''GET'' ''/api/users'' (Some ''gateway-secret-key''))))))
        ''X-RateLimit-Reset'' = None"
  by code_simp

section \<open>Route resolution and path rewriting\<close>

lemma startsWith_iff: "startsWith s p \<longleftrightarrow> (\<exists>rest. s = p @ rest)"
  by (induction s p rule: startsWith.induct) auto

lemma String_replace_prefix: "startsWith s p \<Longrightarrow> String_replace s p [] = drop (length p) s"
  by (cases s) (auto simp: startsWith_iff)

text \<open>
  \<open>router\<close> and the loop of \<open>onProxyReq\<close> stop at the same entry: the first one, in the
  order of the configuration, whose prefix starts the path. \<open>router\<close> gives its target;
  the new path is the path without the prefix, or \<open>/\<close> if nothing is left.
\<close>

lemma first_match:
  assumes "cfg = pre @ (route, target) # post"
    and "startsWith p route"
    and "\<forall>(r, t) \<in> set pre. \<not> startsWith p r"
  shows "router cfg p = Some target"
    and "newPath cfg p = (if drop (length route) p = [] then ''/'' else drop (length route) p)"
  using assms by (induction pre arbitrary: cfg) (auto simp: String_replace_prefix Let_def)

lemma no_match:
  assumes "\<forall>(r, t) \<in> set cfg. \<not> startsWith p r"
  shows "router cfg p = None" and "newPath cfg p = p"
  using assms by (induction cfg) auto

lemma router_Some_first_match:
  "router cfg p = Some target \<Longrightarrow>
   \<exists>pre route post. cfg = pre @ (route, target) # post \<and> startsWith p route
     \<and> (\<forall>(r, t) \<in> set pre. \<not> startsWith p r)"
proof (induction cfg)
  case Nil
  then show ?case by simp
next
  case (Cons e cfg)
  obtain r t where e: "e = (r, t)" by (cases e)
  show ?case
  proof (cases "startsWith p r")
    case True
    with Cons.prems e have "e # cfg = [] @ (r, target) # cfg" by simp
    with True show ?thesis by fastforce
  next
    case False
    with Cons e obtain pre route post where
      "cfg = pre @ (route, target) # post" "startsWith p route"
      "\<forall>(r, t) \<in> set pre. \<not> startsWith p r"
      by auto
    with False e have "e # cfg = (e # pre) @ (route, target) # post
        \<and> startsWith p route \<and> (\<forall>(r, t) \<in> set (e # pre). \<not> startsWith p r)"
      by simp
    then show ?thesis by blast
  qed
qed

lemma String_split_no_sep: "c \<notin> set s \<Longrightarrow> String_split c s = [s]"
  by (induction s) auto

lemma String_split_append:
  "c \<notin> set s \<Longrightarrow> String_split c (s @ c # t) = s # String_split c t"
  by (induction s) auto

text \<open>
  Without a query string the new path is sent as it is; with a query string that holds no
  further \<open>?\<close> the query string is put back whole.
\<close>

lemma proxyReq_path_no_query:
  "CHR ''?'' \<notin> set url \<Longrightarrow> proxyReq_path cfg p url = newPath cfg p"
  by (simp add: proxyReq_path_def)

lemma proxyReq_path_plain_query:
  assumes "CHR ''?'' \<notin> set p" and "CHR ''?'' \<notin> set q"
  shows "proxyReq_path cfg p (p @ ''?'' @ q) = newPath cfg p @ ''?'' @ q"
  using assms by (simp add: proxyReq_path_def String_split_append String_split_no_sep)

lemma resolve_examples:
  "router [(''/api/users'', ''http://x'')] ''/api/users/123'' = Some ''http://x''"
  "proxyReq_path [(''/api/users'', ''http://x'')] ''/api/users/123'' ''/api/users/123'' = ''/123''"
  "proxyReq_path [(''/api/orders'', ''http://x'')] ''/api/orders'' ''/api/orders'' = ''/''"
  "router [(''/api'', ''http://a''), (''/api/users'', ''http://b'')] ''/api/users/1'' = Some ''http://a''"
  by (simp_all add: proxyReq_path_def)

text \<open>
  Claim C7 against the code. \<open>req.url.split('?')[1]\<close> is the text between the first and
  the second \<open>?\<close> of the URL. For the URL \<open>/api/users/search?q=a?b\<close> under the route
  \<open>/api/users\<close> the query string is \<open>q=a?b\<close>, and the path sent upstream is
  \<open>/search?q=a\<close>: the query string is cut at its \<open>?\<close>.
\<close>

theorem proxyReq_path_cuts_query_at_question_mark:
  "router [(''/api/users'', ''http://x'')] ''/api/users/search'' = Some ''http://x''
   \<and> query_string ''/api/users/search?q=a?b'' = ''q=a?b''
   \<and> proxyReq_path [(''/api/users'', ''http://x'')] ''/api/users/search''
        ''/api/users/search?q=a?b'' = ''/search?q=a''"
  by (simp add: proxyReq_path_def query_string_def)

section \<open>The cache in the middleware stack\<close>

text \<open>A GET that passed authentication and the rate limiter, with a fresh entry under its key.\<close>

lemma handle_hit:
  assumes "json_error req = None"
    and "authenticateApiKey (API_KEY env) req = None"
    and "rateLimiter (now_rateLimiter env) (ip req) (rateLimitStore s) = (store, Inr hs)"
    and "req_method req = ''GET''"
    and "Map_get (cacheStore s) (cacheKey req) = Some cached"
    and "now_cache env - timestamp cached < 30000"
  shows "handle cfg env s req =
    (s\<lparr>rateLimitStore := store\<rparr>,
     originalJson req \<lparr>status = 200, headers = hs, body = Json (cached_body cached)\<rparr>, None)"
  using assms by (simp add: handle_def cacheMiddleware_def)

text \<open>The same without a fresh entry: the route handlers answer, behind the storing wrapper.\<close>

lemma handle_miss:
  assumes "json_error req = None"
    and "authenticateApiKey (API_KEY env) req = None"
    and "rateLimiter (now_rateLimiter env) (ip req) (rateLimitStore s) = (store, Inr hs)"
    and "req_method req = ''GET''"
    and "case Map_get (cacheStore s) (cacheKey req) of
           None \<Rightarrow> True | Some cached \<Rightarrow> \<not> now_cache env - timestamp cached < 30000"
  shows "handle cfg env s req =
    (case route_handlers cfg env (s\<lparr>rateLimitStore := store\<rparr>) req of
       (r, call) \<Rightarrow>
         (case body r of
            Json d \<Rightarrow>
              (s\<lparr>rateLimitStore := store,
                 cacheStore := res_json (cacheKey req) (now_store env) (status r) d (cacheStore s)\<rparr>,
               originalJson req (r\<lparr>headers := hs @ headers r\<rparr>), call)
          | Relayed b \<Rightarrow> (s\<lparr>rateLimitStore := store\<rparr>, r\<lparr>headers := hs @ headers r\<rparr>, call)
          | NoBody \<Rightarrow> (s\<lparr>rateLimitStore := store\<rparr>, r\<lparr>headers := hs @ headers r\<rparr>, call)))"
  using assms
  by (auto simp: handle_def cacheMiddleware_def split: option.splits prod.splits payload.splits)

text \<open>The two stores stay maps, and the cache stays within 100 entries, over every request.\<close>

lemma handle_invariant:
  assumes "distinct (Map_keys (rateLimitStore s))"
    and "distinct (Map_keys (cacheStore s))" and "length (cacheStore s) \<le> 100"
  shows "distinct (Map_keys (rateLimitStore (fst (handle cfg env s req))))
    \<and> distinct (Map_keys (cacheStore (fst (handle cfg env s req))))
    \<and> length (cacheStore (fst (handle cfg env s req))) \<le> 100"
proof (cases "json_error req")
  case (Some error)
  with assms show ?thesis by (simp add: handle_def)
next
  case parsed: None
  show ?thesis
  proof (cases "authenticateApiKey (API_KEY env) req")
    case (Some r)
    with parsed assms show ?thesis by (simp add: handle_def)
  next
    case None
    obtain store out where rl:
      "rateLimiter (now_rateLimiter env) (ip req) (rateLimitStore s) = (store, out)"
      by (cases "rateLimiter (now_rateLimiter env) (ip req) (rateLimitStore s)")
    have store: "distinct (Map_keys store)"
      using rateLimiter_distinct [OF assms(1), of "now_rateLimiter env" "ip req"] rl by simp
    show ?thesis
    proof (cases out)
      case (Inl r)
      with parsed None rl store assms show ?thesis by (simp add: handle_def)
    next
      case (Inr hs)
      with parsed None rl store assms res_json_invariant [OF assms(2,3)] show ?thesis
        by (auto simp: handle_def Let_def
            split: cache_outcome.splits prod.splits payload.splits)
    qed
  qed
qed

lemma management_route:
  assumes "req_method req = ''GET''"
    and "req_path req = ''/gateway/stats'' \<or> req_path req = ''/health''"
  shows "route_handlers cfg env s req =
    (\<lparr>status = 200, headers = [],
      body = Json (if req_path req = ''/health'' then health_body cfg env
                   else stats_body cfg env s)\<rparr>, None)"
  using assms by (auto simp: route_handlers_def route_match_def toLowerCase_def)

lemma management_cached_body:
  "cached_body \<lparr>data = health_body cfg env, timestamp = t\<rparr>
     = health_body cfg env @ [(''_cached'', JBool True), (''_cachedAt'', JIso t)]"
  "cached_body \<lparr>data = stats_body cfg env s, timestamp = t\<rparr>
     = stats_body cfg env s @ [(''_cached'', JBool True), (''_cachedAt'', JIso t)]"
  by (simp_all add: cached_body_def health_body_def stats_body_def)

text \<open>
  Claim C10, as amended. A GET of \<open>/gateway/stats\<close> or \<open>/health\<close> that the body parser lets
  through, with the valid key, allowed by the rate limiter and not answered from the cache,
  is answered through \<open>res.json\<close> with the 200 answer \<open>b\<close> of its handler, and \<open>b\<close> is stored
  under the request's key with the time of the store. The same request again, in any later
  state \<open>s2\<close> in which that entry is still in the cache, allowed by the rate limiter and
  looked up less than 30000 ms after the store, is answered through \<open>res.json\<close> with status
  200 and the stored \<open>b\<close> plus \<open>_cached: true\<close> and \<open>_cachedAt\<close>: the figures are those of the
  first request, not those of \<open>s2\<close> and of the environment of the second. (\<open>originalJson\<close>
  sends the answer as it is, or as 304 without a body when the request's conditional
  headers match it.)
\<close>

theorem management_endpoints_are_cached:
  assumes "req_method req = ''GET''"
    and "req_path req = ''/gateway/stats'' \<or> req_path req = ''/health''"
    and "json_error req = None"
    and "x_api_key req = Some (validApiKey (API_KEY env1))"
    and "API_KEY env2 = API_KEY env1"
    and "distinct (Map_keys (cacheStore s))" and "length (cacheStore s) \<le> 100"
    and "rateLimiter (now_rateLimiter env1) (ip req) (rateLimitStore s) = (store1, Inr hs1)"
    and "cacheMiddleware (now_cache env1) req (cacheStore s) = Miss (cacheKey req)"
    and "b = (if req_path req = ''/health'' then health_body cfg env1
              else stats_body cfg env1 (s\<lparr>rateLimitStore := store1\<rparr>))"
    and "s1 = \<lparr>rateLimitStore = store1,
               cacheStore = res_json (cacheKey req) (now_store env1) 200 b (cacheStore s)\<rparr>"
    and "Map_get (cacheStore s2) (cacheKey req) = Some \<lparr>data = b, timestamp = now_store env1\<rparr>"
    and "rateLimiter (now_rateLimiter env2) (ip req) (rateLimitStore s2) = (store2, Inr hs2)"
    and "now_cache env2 - now_store env1 < 30000"
  shows "handle cfg env1 s req =
        (s1, originalJson req \<lparr>status = 200, headers = hs1, body = Json b\<rparr>, None)
    \<and> Map_get (cacheStore s1) (cacheKey req) = Some \<lparr>data = b, timestamp = now_store env1\<rparr>
    \<and> handle cfg env2 s2 req =
        (s2\<lparr>rateLimitStore := store2\<rparr>,
         originalJson req
           \<lparr>status = 200, headers = hs2,
            body = Json (b @ [(''_cached'', JBool True), (''_cachedAt'', JIso (now_store env1))])\<rparr>,
         None)"
proof -
  have auth1: "authenticateApiKey (API_KEY env1) req = None"
    using assms(4) by (simp add: authenticateApiKey_pass)
  have auth2: "authenticateApiKey (API_KEY env2) req = None"
    using assms(4,5) by (simp add: authenticateApiKey_pass)
  have route: "route_handlers cfg env1 (s\<lparr>rateLimitStore := store1\<rparr>) req =
      (\<lparr>status = 200, headers = [], body = Json b\<rparr>, None)"
    using management_route [OF assms(1,2)] assms(10) by simp
  have first: "handle cfg env1 s req =
      (s1, originalJson req \<lparr>status = 200, headers = hs1, body = Json b\<rparr>, None)"
    using assms(3) auth1 assms(8,9) route by (simp add: handle_def assms(11))
  have stored: "Map_get (cacheStore s1) (cacheKey req)
      = Some \<lparr>data = b, timestamp = now_store env1\<rparr>"
    using res_json_stored [OF assms(6,7)] by (simp add: assms(11))
  have body: "cached_body \<lparr>data = b, timestamp = now_store env1\<rparr>
      = b @ [(''_cached'', JBool True), (''_cachedAt'', JIso (now_store env1))]"
    by (simp add: assms(10) management_cached_body)
  have second: "handle cfg env2 s2 req =
      (s2\<lparr>rateLimitStore := store2\<rparr>,
       originalJson req
         \<lparr>status = 200, headers = hs2,
          body = Json (cached_body \<lparr>data = b, timestamp = now_store env1\<rparr>)\<rparr>, None)"
    using handle_hit [OF assms(3) auth2 assms(13) assms(1) assms(12)] assms(14) by simp
  show ?thesis
    using first stored second by (simp add: body)
qed

theorem management_endpoints_are_cached_witness:
  "handle sample_config (sample_env 1000) empty_gateway
      (sample_request ''GET'' ''/health'' (Some ''gateway-secret-key''))
    = (\<lparr>rateLimitStore = [(''10.0.0.1'', \<lparr>count = 1, windowStart = 1000\<rparr>)],
        cacheStore = [(''GET:/health:gateway-secret-key'',
                       \<lparr>data = health_body sample_config (sample_env 1000), timestamp = 1000\<rparr>)]\<rparr>,
       \<lparr>status = 200,
        headers = [(''X-RateLimit-Limit'', JNum 10), (''X-RateLimit-Remaining'', JNum 9),
                   (''X-RateLimit-Reset'', JIso 61000)],
        body = Json (health_body sample_config (sample_env 1000))\<rparr>,
       None)
   \<and> handle sample_config ((sample_env 30999)\<lparr>uptime := JNum 37\<rparr>)
       \<lparr>rateLimitStore = [(''10.0.0.1'', \<lparr>count = 1, windowStart = 1000\<rparr>)],
        cacheStore = [(''GET:/health:gateway-secret-key'',
                       \<lparr>data = health_body sample_config (sample_env 1000), timestamp = 1000\<rparr>)]\<rparr>
       (sample_request ''GET'' ''/health'' (Some ''gateway-secret-key''))
    = (\<lparr>rateLimitStore = [(''10.0.0.1'', \<lparr>count = 2, windowStart = 1000\<rparr>)],
        cacheStore = [(''GET:/health:gateway-secret-key'',
                       \<lparr>data = health_body sample_config (sample_env 1000), timestamp = 1000\<rparr>)]\<rparr>,
       \<lparr>status = 200,
        headers = [(''X-RateLimit-Limit'', JNum 10), (''X-RateLimit-Remaining'', JNum 8),
                   (''X-RateLimit-Reset'', JIso 61000)],
        body = Json [(''status'', JStr ''healthy''), (''timestamp'', JIso 1000),
                     (''uptime'', JNum 7),
                     (''routes'', JArr [JStr ''/api/users'', JStr ''/api/orders'']),
                     (''_cached'', JBool True), (''_cachedAt'', JIso 1000)]\<rparr>,
       None)"
proof -
  let ?req = "sample_request ''GET'' ''/health'' (Some ''gateway-secret-key'')"
  let ?env1 = "sample_env 1000"
  let ?env2 = "(sample_env 30999)\<lparr>uptime := JNum 37\<rparr>"
  let ?hs1 = "[(''X-RateLimit-Limit'', JNum 10), (''X-RateLimit-Remaining'', JNum 9),
               (''X-RateLimit-Reset'', JIso 61000)]"
  let ?hs2 = "[(''X-RateLimit-Limit'', JNum 10), (''X-RateLimit-Remaining'', JNum 8),
               (''X-RateLimit-Reset'', JIso 61000)]"
  let ?s1 = "\<lparr>rateLimitStore = [(''10.0.0.1'', \<lparr>count = 1, windowStart = 1000\<rparr>)],
              cacheStore = [(''GET:/health:gateway-secret-key'',
                             \<lparr>data = health_body sample_config ?env1, timestamp = 1000\<rparr>)]\<rparr>"
  have h1: "req_method ?req = ''GET''"
    and h2: "req_path ?req = ''/gateway/stats'' \<or> req_path ?req = ''/health''"
    and h3: "json_error ?req = None"
    and h4: "x_api_key ?req = Some (validApiKey (API_KEY ?env1))"
    and h5: "API_KEY ?env2 = API_KEY ?env1"
    and h6: "distinct (Map_keys (cacheStore empty_gateway))"
    and h7: "length (cacheStore empty_gateway) \<le> 100"
    and h9: "cacheMiddleware (now_cache ?env1) ?req (cacheStore empty_gateway) = Miss (cacheKey ?req)"
    and h14: "now_cache ?env2 - now_store ?env1 < 30000"
    by (simp_all add: sample_request_def sample_env_def empty_gateway_def req_path_def
        validApiKey_def Map_keys_def cacheMiddleware_def Map_get_def)
  have h8: "rateLimiter (now_rateLimiter ?env1) (ip ?req) (rateLimitStore empty_gateway)
      = ([(''10.0.0.1'', \<lparr>count = 1, windowStart = 1000\<rparr>)], Inr ?hs1)"
    by (simp add: rateLimiter_def clean_expired_def Map_get_def sample_env_def
        sample_request_def empty_gateway_def rate_limit_headers_def maxRequests_def windowMs_def)
  have h13: "rateLimiter (now_rateLimiter ?env2) (ip ?req) (rateLimitStore ?s1)
      = ([(''10.0.0.1'', \<lparr>count = 2, windowStart = 1000\<rparr>)], Inr ?hs2)"
    by (simp add: rateLimiter_def clean_expired_def Map_get_def sample_env_def
        sample_request_def rate_limit_headers_def maxRequests_def windowMs_def)
  have path: "req_path ?req = ''/health''"
    by (simp add: sample_request_def req_path_def)
  have store: "res_json (cacheKey ?req) (now_store ?env1) 200
        (health_body sample_config ?env1) (cacheStore empty_gateway)
      = [(''GET:/health:gateway-secret-key'',
          \<lparr>data = health_body sample_config ?env1, timestamp = 1000\<rparr>)]"
    by (simp add: res_json_def Map_size_def cacheKey_def sample_request_def sample_env_def
        empty_gateway_def)
  have h12: "Map_get (cacheStore ?s1) (cacheKey ?req)
      = Some \<lparr>data = (if req_path ?req = ''/health'' then health_body sample_config ?env1
                        else stats_body sample_config ?env1
                               (empty_gateway\<lparr>rateLimitStore :=
                                  [(''10.0.0.1'', \<lparr>count = 1, windowStart = 1000\<rparr>)]\<rparr>)),
               timestamp = now_store ?env1\<rparr>"
    unfolding path by (simp add: Map_get_def cacheKey_def sample_request_def sample_env_def)
  note inst = management_endpoints_are_cached
    [OF h1 h2 h3 h4 h5 h6 h7 h8 h9 refl refl h12 h13 h14]
  have body: "health_body sample_config ?env1
        @ [(''_cached'', JBool True), (''_cachedAt'', JIso (now_store ?env1))]
      = [(''status'', JStr ''healthy''), (''timestamp'', JIso 1000), (''uptime'', JNum 7),
         (''routes'', JArr [JStr ''/api/users'', JStr ''/api/orders'']),
         (''_cached'', JBool True), (''_cachedAt'', JIso 1000)]"
    by (simp add: health_body_def sample_config_def sample_env_def)
  have plain: "\<And>r. originalJson ?req r = r"
    by (rule originalJson_unconditional) (simp add: sample_request_def)
  show ?thesis
    using inst by (simp add: path store body plain)
qed

text \<open>An insert that makes the cache exceed 100 entries evicts the oldest entry.\<close>

lemma oldest_evicted:
  assumes "distinct (Map_keys ((k0, e0) # cache))" and "length ((k0, e0) # cache) = 100"
    and "key \<notin> set (Map_keys ((k0, e0) # cache))"
  shows "Map_get (res_json key now 200 d ((k0, e0) # cache)) k0 = None"
    and "length (res_json key now 200 d ((k0, e0) # cache)) = 91"
proof -
  let ?e = "\<lparr>data = d, timestamp = now\<rparr>"
  have set: "Map_set key ?e ((k0, e0) # cache) = (k0, e0) # cache @ [(key, ?e)]"
    using Map_set_absent [OF assms(3), of ?e] by simp
  have len: "length (Map_set key ?e ((k0, e0) # cache)) = 101"
    using assms(2,3) by (simp add: length_Map_set del: Map_set.simps)
  then have "res_json key now 200 d ((k0, e0) # cache)
      = drop 10 (Map_set key ?e ((k0, e0) # cache))"
    by (simp add: res_json_200 [OF assms(1)] del: Map_set.simps)
  then have res: "res_json key now 200 d ((k0, e0) # cache) = drop 9 (cache @ [(key, ?e)])"
    unfolding set by simp
  have "k0 \<notin> set (Map_keys (cache @ [(key, ?e)]))"
    using assms(1,3) by (auto simp: Map_keys_def)
  then have "k0 \<notin> set (Map_keys (drop 9 (cache @ [(key, ?e)])))"
    by (auto simp: Map_keys_def dest: in_set_dropD)
  then show "Map_get (res_json key now 200 d ((k0, e0) # cache)) k0 = None"
    unfolding res by (simp add: Map_get_def Map_keys_def map_of_eq_None_iff)
  show "length (res_json key now 200 d ((k0, e0) # cache)) = 91"
    unfolding res using assms(2) by simp
qed

lemma sample_full_cache_keys:
  "distinct (Map_keys sample_full_cache)"
  "length sample_full_cache = 100"
  "''GET:/health:gateway-secret-key'' \<notin> set (Map_keys sample_full_cache)"
  by (auto simp: sample_full_cache_def Map_keys_def comp_def distinct_map inj_on_def)

text \<open>
  Claim C10 as stated fails in two ways. First, the repeat comes after the rate limiter:
  the tenth request of a client in its window is a GET of \<open>/gateway/stats\<close>, answered with
  200 and stored, and the same GET one millisecond later is the eleventh and is denied with
  429. Second, the entry can be evicted within the 30 seconds: the cache holds the stats
  answer stored at time 1000 and 99 later answers; at time 1600 another client's GET of
  \<open>/health\<close> is stored as the 101st entry, the ten oldest entries go, and the same GET of
  \<open>/gateway/stats\<close> at time 2000 is a miss that gets freshly computed statistics (12 clients,
  91 cache entries) without \<open>_cached\<close>.
\<close>

theorem cached_stats_not_served_to_repeat:
  "status (fst (snd (handle sample_config (sample_env 1000)
       \<lparr>rateLimitStore = [(''10.0.0.1'', \<lparr>count = 9, windowStart = 0\<rparr>)], cacheStore = []\<rparr>
       (sample_request ''GET'' ''/gateway/stats'' (Some ''gateway-secret-key''))))) = 200
   \<and> Map_keys (cacheStore (fst (handle sample_config (sample_env 1000)
       \<lparr>rateLimitStore = [(''10.0.0.1'', \<lparr>count = 9, windowStart = 0\<rparr>)], cacheStore = []\<rparr>
       (sample_request ''GET'' ''/gateway/stats'' (Some ''gateway-secret-key'')))))
     = [''GET:/gateway/stats:gateway-secret-key'']
   \<and> status (fst (snd (handle sample_config (sample_env 1001)
       (fst (handle sample_config (sample_env 1000)
          \<lparr>rateLimitStore = [(''10.0.0.1'', \<lparr>count = 9, windowStart = 0\<rparr>)], cacheStore = []\<rparr>
          (sample_request ''GET'' ''/gateway/stats'' (Some ''gateway-secret-key''))))
       (sample_request ''GET'' ''/gateway/stats'' (Some ''gateway-secret-key''))))) = 429
   \<and> Map_get (cacheStore sample_full_gateway) ''GET:/gateway/stats:gateway-secret-key''
     = Some \<lparr>data = sample_stats, timestamp = 1000\<rparr>
   \<and> Map_get (cacheStore (fst (handle sample_config (sample_env 1600) sample_full_gateway
       ((sample_request ''GET'' ''/health'' (Some ''gateway-secret-key''))\<lparr>ip := ''10.0.2.1''\<rparr>))))
       ''GET:/gateway/stats:gateway-secret-key''
     = None
   \<and> fst (snd (handle sample_config (sample_env 2000)
       (fst (handle sample_config (sample_env 1600) sample_full_gateway
          ((sample_request ''GET'' ''/health'' (Some ''gateway-secret-key''))\<lparr>ip := ''10.0.2.1''\<rparr>)))
       (sample_request ''GET'' ''/gateway/stats'' (Some ''gateway-secret-key''))))
     = \<lparr>status = 200,
        headers = [(''X-RateLimit-Limit'', JNum 10), (''X-RateLimit-Remaining'', JNum 8),
                   (''X-RateLimit-Reset'', JIso 61000)],
        body = Json [(''activeConnections'', JNum 12), (''cacheSize'', JNum 91),
                     (''configuration'', JObj [(''/api/users'', JStr ''http://localhost:5001''),
                                               (''/api/orders'', JStr ''http://localhost:5002'')]),
                     (''memory'', JObj [])]\<rparr>"
proof -
  let ?key = "''GET:/gateway/stats:gateway-secret-key''"
  let ?req = "sample_request ''GET'' ''/gateway/stats'' (Some ''gateway-secret-key'')"
  let ?other = "(sample_request ''GET'' ''/health'' (Some ''gateway-secret-key''))\<lparr>ip := ''10.0.2.1''\<rparr>"
  let ?s9 = "\<lparr>rateLimitStore = [(''10.0.0.1'', \<lparr>count = 9, windowStart = 0\<rparr>)], cacheStore = []\<rparr>"
  let ?health = "health_body sample_config (sample_env 1600)"
  let ?hs1 = "[(''X-RateLimit-Limit'', JNum 10), (''X-RateLimit-Remaining'', JNum 9),
               (''X-RateLimit-Reset'', JIso 61600)]"
  let ?hs2 = "[(''X-RateLimit-Limit'', JNum 10), (''X-RateLimit-Remaining'', JNum 8),
               (''X-RateLimit-Reset'', JIso 61000)]"
  let ?store1 = "sample_clients @ [(''10.0.2.1'', \<lparr>count = 1, windowStart = 1600\<rparr>)]"
  let ?store2 = "(''10.0.0.1'', \<lparr>count = 2, windowStart = 1000\<rparr>) # tl ?store1"
  let ?cache1 = "res_json ''GET:/health:gateway-secret-key'' 1600 200 ?health sample_full_cache"
  let ?s1 = "\<lparr>rateLimitStore = ?store1, cacheStore = ?cache1\<rparr>"
  have denied: "status (fst (snd (handle sample_config (sample_env 1000) ?s9 ?req))) = 200
      \<and> Map_keys (cacheStore (fst (handle sample_config (sample_env 1000) ?s9 ?req))) = [?key]
      \<and> status (fst (snd (handle sample_config (sample_env 1001)
            (fst (handle sample_config (sample_env 1000) ?s9 ?req)) ?req))) = 429"
    by code_simp
  have present: "Map_get (cacheStore sample_full_gateway) ?key
      = Some \<lparr>data = sample_stats, timestamp = 1000\<rparr>"
    by (simp add: sample_full_gateway_def sample_full_cache_def Map_get_def)
  have other: "json_error ?other = None" "req_method ?other = ''GET''"
      "authenticateApiKey (API_KEY (sample_env 1600)) ?other = None"
      "req_path ?other = ''/gateway/stats'' \<or> req_path ?other = ''/health''"
      "req_path ?other = ''/health''"
      "cacheKey ?other = ''GET:/health:gateway-secret-key''"
      "conditional ?other = never"
      "ip ?other = ''10.0.2.1''"
    by (simp_all add: sample_request_def sample_env_def authenticateApiKey_def validApiKey_def
        req_path_def cacheKey_def)
  have clock: "now_rateLimiter (sample_env 1600) = 1600" "now_cache (sample_env 1600) = 1600"
      "now_store (sample_env 1600) = 1600" "now_rateLimiter (sample_env 2000) = 2000"
      "now_cache (sample_env 2000) = 2000" "memoryUsage (sample_env 2000) = JObj []"
    by (simp_all add: sample_env_def)
  have "rateLimiter 1600 ''10.0.2.1'' sample_clients = (?store1, Inr ?hs1)"
    by code_simp
  then have rl1: "rateLimiter (now_rateLimiter (sample_env 1600)) (ip ?other)
        (rateLimitStore sample_full_gateway) = (?store1, Inr ?hs1)"
    by (simp only: clock other(8) sample_full_gateway_def gateway.simps)
  have absent: "Map_get (cacheStore sample_full_gateway) (cacheKey ?other) = None"
    using sample_full_cache_keys(3)
    by (simp add: other(6) sample_full_gateway_def Map_get_def Map_keys_def map_of_eq_None_iff)
  have route1: "route_handlers sample_config (sample_env 1600)
        (sample_full_gateway\<lparr>rateLimitStore := ?store1\<rparr>) ?other
      = (\<lparr>status = 200, headers = [], body = Json ?health\<rparr>, None)"
    using management_route [OF other(2) other(4)] by (simp add: other(5))
  have miss1: "case Map_get (cacheStore sample_full_gateway) (cacheKey ?other) of
        None \<Rightarrow> True
      | Some cached \<Rightarrow> \<not> now_cache (sample_env 1600) - timestamp cached < 30000"
    unfolding absent by simp
  have first: "fst (handle sample_config (sample_env 1600) sample_full_gateway ?other) = ?s1"
    unfolding handle_miss [OF other(1) other(3) rl1 other(2) miss1, where cfg = sample_config]
      route1
    by (simp add: other(6) clock sample_full_gateway_def)
  have full: "distinct (Map_keys ((?key, \<lparr>data = sample_stats, timestamp = 1000\<rparr>)
        # tl sample_full_cache))"
      "length ((?key, \<lparr>data = sample_stats, timestamp = 1000\<rparr>) # tl sample_full_cache) = 100"
      "''GET:/health:gateway-secret-key''
        \<notin> set (Map_keys ((?key, \<lparr>data = sample_stats, timestamp = 1000\<rparr>) # tl sample_full_cache))"
      and shape: "(?key, \<lparr>data = sample_stats, timestamp = 1000\<rparr>) # tl sample_full_cache
        = sample_full_cache"
    using sample_full_cache_keys by (simp_all add: sample_full_cache_def)
  have evicted: "Map_get (cacheStore ?s1) ?key = None" and size: "Map_size (cacheStore ?s1) = 91"
    using oldest_evicted [OF full, of 1600 ?health] unfolding shape
    by (simp_all add: Map_size_def)
  have req: "json_error ?req = None" "req_method ?req = ''GET''"
      "authenticateApiKey (API_KEY (sample_env 2000)) ?req = None"
      "req_path ?req = ''/gateway/stats'' \<or> req_path ?req = ''/health''"
      "req_path ?req = ''/gateway/stats''"
      "cacheKey ?req = ?key"
      "conditional ?req = never"
      "ip ?req = ''10.0.0.1''"
    by (simp_all add: sample_request_def sample_env_def authenticateApiKey_def validApiKey_def
        req_path_def cacheKey_def)
  have "rateLimiter 2000 ''10.0.0.1'' ?store1 = (?store2, Inr ?hs2)"
    by code_simp
  then have rl2: "rateLimiter (now_rateLimiter (sample_env 2000)) (ip ?req) (rateLimitStore ?s1)
      = (?store2, Inr ?hs2)"
    by (simp only: clock req(8) gateway.simps)
  have clients: "Map_size ?store2 = 12"
    by code_simp
  have stats: "stats_body sample_config (sample_env 2000)
        \<lparr>rateLimitStore = ?store2, cacheStore = ?cache1\<rparr>
      = [(''activeConnections'', JNum 12), (''cacheSize'', JNum 91),
         (''configuration'', JObj [(''/api/users'', JStr ''http://localhost:5001''),
                                   (''/api/orders'', JStr ''http://localhost:5002'')]),
         (''memory'', JObj [])]"
    using clients size by (simp add: stats_body_def clock(6) sample_config_def)
  have route2: "route_handlers sample_config (sample_env 2000) (?s1\<lparr>rateLimitStore := ?store2\<rparr>) ?req
      = (\<lparr>status = 200, headers = [],
          body = Json (stats_body sample_config (sample_env 2000)
                         \<lparr>rateLimitStore = ?store2, cacheStore = ?cache1\<rparr>)\<rparr>, None)"
    using management_route [OF req(2) req(4)] by (simp add: req(5))
  have miss2: "case Map_get (cacheStore ?s1) (cacheKey ?req) of
        None \<Rightarrow> True
      | Some cached \<Rightarrow> \<not> now_cache (sample_env 2000) - timestamp cached < 30000"
    unfolding req(6) evicted by simp
  have second: "fst (snd (handle sample_config (sample_env 2000) ?s1 ?req))
      = \<lparr>status = 200, headers = ?hs2,
         body = Json [(''activeConnections'', JNum 12), (''cacheSize'', JNum 91),
                      (''configuration'', JObj [(''/api/users'', JStr ''http://localhost:5001''),
                                                (''/api/orders'', JStr ''http://localhost:5002'')]),
                      (''memory'', JObj [])]\<rparr>"
    unfolding handle_miss [OF req(1) req(3) rl2 req(2) miss2, where cfg = sample_config] route2
    by (simp add: originalJson_unconditional [OF req(7)] stats)
  from denied present evicted second show ?thesis
    unfolding first by blast
qed

section \<open>Proxied requests and the cache\<close>

text \<open>
  Only the answers of \<open>/health\<close> and \<open>/gateway/stats\<close> are ever stored: a request that
  neither of the two routes takes leaves the cache as it was. The answer of the proxy is
  relayed without \<open>res.json\<close>, and the JSON answers of the other handlers have a status
  other than 200.
\<close>

lemma only_management_answers_are_stored:
  assumes "\<not> route_match ''/health'' req" and "\<not> route_match ''/gateway/stats'' req"
  shows "cacheStore (fst (handle cfg env s req)) = cacheStore s"
proof (cases "json_error req")
  case (Some error)
  then show ?thesis by (simp add: handle_def)
next
  case parsed: None
  show ?thesis
  proof (cases "authenticateApiKey (API_KEY env) req")
    case (Some r)
    with parsed show ?thesis by (simp add: handle_def)
  next
    case None
    obtain store out where rl:
      "rateLimiter (now_rateLimiter env) (ip req) (rateLimitStore s) = (store, out)"
      by (cases "rateLimiter (now_rateLimiter env) (ip req) (rateLimitStore s)")
    show ?thesis
    proof (cases out)
      case (Inl r)
      with parsed None rl show ?thesis by (simp add: handle_def)
    next
      case (Inr hs)
      with parsed None rl assms show ?thesis
        by (auto simp: handle_def Let_def route_handlers_def proxy_def onError_def
            error_handler_def res_json_def
            split: cache_outcome.splits prod.splits payload.splits option.splits
              upstream_result.splits if_splits)
    qed
  qed
qed

text \<open>
  Claim C1 against the code. \<open>cacheMiddleware\<close> is mounted before the proxy to cache GET
  responses, but it stores in the replaced \<open>res.json\<close>, and the proxy never calls
  \<open>res.json\<close>: it pipes the upstream answer into \<open>res\<close>. On an empty gateway a GET of
  \<open>/api/users\<close> with the valid key is forwarded and answered 200, and nothing is stored;
  the same GET one millisecond later (same method, URL and credential, second of ten
  allowed requests) is not answered from the cache: it is forwarded upstream a second time
  and the upstream's answer is relayed again.
\<close>

theorem proxied_get_is_forwarded_again:
  "status (fst (snd (handle sample_config (sample_env 1000) empty_gateway
       (sample_request ''GET'' ''/api/users'' (Some ''gateway-secret-key''))))) = 200
   \<and> body (fst (snd (handle sample_config (sample_env 1000) empty_gateway
       (sample_request ''GET'' ''/api/users'' (Some ''gateway-secret-key''))))) = Relayed ''users''
   \<and> cacheStore (fst (handle sample_config (sample_env 1000) empty_gateway
       (sample_request ''GET'' ''/api/users'' (Some ''gateway-secret-key'')))) = []
   \<and> status (fst (snd (handle sample_config (sample_env 1001)
       (fst (handle sample_config (sample_env 1000) empty_gateway
          (sample_request ''GET'' ''/api/users'' (Some ''gateway-secret-key''))))
       (sample_request ''GET'' ''/api/users'' (Some ''gateway-secret-key''))))) = 200
   \<and> body (fst (snd (handle sample_config (sample_env 1001)
       (fst (handle sample_config (sample_env 1000) empty_gateway
          (sample_request ''GET'' ''/api/users'' (Some ''gateway-secret-key''))))
       (sample_request ''GET'' ''/api/users'' (Some ''gateway-secret-key''))))) = Relayed ''users''
   \<and> snd (snd (handle sample_config (sample_env 1001)
       (fst (handle sample_config (sample_env 1000) empty_gateway
          (sample_request ''GET'' ''/api/users'' (Some ''gateway-secret-key''))))
       (sample_request ''GET'' ''/api/users'' (Some ''gateway-secret-key''))))
     = Some \<lparr>call_target = ''http://localhost:5001'', call_method = ''GET'', call_path = ''/'',
             call_headers = [(''x-forwarded-api-key'', ''gateway-secret-key''),
                             (''x-forwarded-by'', ''mini-api-gateway''),
                             (''x-forwarded-for'', ''10.0.0.1'')]\<rparr>"
  by code_simp

end
